theory Spec2Isabelle
  imports Main "HOL-Library.AList" "HOL-Library.Code_Target_Nat"
begin

section \<open>Text and character classes\<close>

text \<open>
  The parsers work on Python \<open>str\<close> values: sequences of Unicode code points.
  A character is modelled by its code point, a text by the list of its code points, so
  that \<open>length\<close> counts what Python's \<open>len\<close> counts and one regular-expression
  step consumes one code point.  ASCII literals are written through \<open>asc\<close>.
\<close>

type_synonym uchar = nat
type_synonym ustring = "uchar list"

definition asc :: "string \<Rightarrow> ustring" where
  "asc s = map of_char s"

text \<open>
  Character classes of the \<open>re\<close> module on \<open>str\<close> patterns: \<open>\d\<close> is the Unicode
  category Nd, \<open>\s\<close> is \<open>str.isspace\<close>, \<open>\w\<close> is \<open>str.isalnum\<close> plus the
  underscore.  The tables list the inclusive code-point ranges (Unicode 14) in
  increasing order.
\<close>

definition unicode_digit_ranges :: "(nat \<times> nat) list" where
  "unicode_digit_ranges =
   [(48, 57), (1632, 1641), (1776, 1785), (1984, 1993), (2406, 2415), (2534, 2543),
    (2662, 2671), (2790, 2799), (2918, 2927), (3046, 3055), (3174, 3183), (3302, 3311),
    (3430, 3439), (3558, 3567), (3664, 3673), (3792, 3801), (3872, 3881), (4160, 4169),
    (4240, 4249), (6112, 6121), (6160, 6169), (6470, 6479), (6608, 6617), (6784, 6793),
    (6800, 6809), (6992, 7001), (7088, 7097), (7232, 7241), (7248, 7257), (42528, 42537),
    (43216, 43225), (43264, 43273), (43472, 43481), (43504, 43513), (43600, 43609), (44016, 44025),
    (65296, 65305), (66720, 66729), (68912, 68921), (69734, 69743), (69872, 69881), (69942, 69951),
    (70096, 70105), (70384, 70393), (70736, 70745), (70864, 70873), (71248, 71257), (71360, 71369),
    (71472, 71481), (71904, 71913), (72016, 72025), (72784, 72793), (73040, 73049), (73120, 73129),
    (92768, 92777), (92864, 92873), (93008, 93017), (120782, 120831), (123200, 123209), (123632, 123641),
    (125264, 125273), (130032, 130041)]"

definition unicode_space_ranges :: "(nat \<times> nat) list" where
  "unicode_space_ranges =
   [(9, 13), (28, 32), (133, 133), (160, 160), (5760, 5760), (8192, 8202),
    (8232, 8233), (8239, 8239), (8287, 8287), (12288, 12288)]"

definition unicode_word_ranges :: "(nat \<times> nat) list" where
  "unicode_word_ranges =
   [(48, 57), (65, 90), (95, 95), (97, 122), (170, 170), (178, 179),
    (181, 181), (185, 186), (188, 190), (192, 214), (216, 246), (248, 705),
    (710, 721), (736, 740), (748, 748), (750, 750), (880, 884), (886, 887),
    (890, 893), (895, 895), (902, 902), (904, 906), (908, 908), (910, 929),
    (931, 1013), (1015, 1153), (1162, 1327), (1329, 1366), (1369, 1369), (1376, 1416),
    (1488, 1514), (1519, 1522), (1568, 1610), (1632, 1641), (1646, 1647), (1649, 1747),
    (1749, 1749), (1765, 1766), (1774, 1788), (1791, 1791), (1808, 1808), (1810, 1839),
    (1869, 1957), (1969, 1969), (1984, 2026), (2036, 2037), (2042, 2042), (2048, 2069),
    (2074, 2074), (2084, 2084), (2088, 2088), (2112, 2136), (2144, 2154), (2160, 2183),
    (2185, 2190), (2208, 2249), (2308, 2361), (2365, 2365), (2384, 2384), (2392, 2401),
    (2406, 2415), (2417, 2432), (2437, 2444), (2447, 2448), (2451, 2472), (2474, 2480),
    (2482, 2482), (2486, 2489), (2493, 2493), (2510, 2510), (2524, 2525), (2527, 2529),
    (2534, 2545), (2548, 2553), (2556, 2556), (2565, 2570), (2575, 2576), (2579, 2600),
    (2602, 2608), (2610, 2611), (2613, 2614), (2616, 2617), (2649, 2652), (2654, 2654),
    (2662, 2671), (2674, 2676), (2693, 2701), (2703, 2705), (2707, 2728), (2730, 2736),
    (2738, 2739), (2741, 2745), (2749, 2749), (2768, 2768), (2784, 2785), (2790, 2799),
    (2809, 2809), (2821, 2828), (2831, 2832), (2835, 2856), (2858, 2864), (2866, 2867),
    (2869, 2873), (2877, 2877), (2908, 2909), (2911, 2913), (2918, 2927), (2929, 2935),
    (2947, 2947), (2949, 2954), (2958, 2960), (2962, 2965), (2969, 2970), (2972, 2972),
    (2974, 2975), (2979, 2980), (2984, 2986), (2990, 3001), (3024, 3024), (3046, 3058),
    (3077, 3084), (3086, 3088), (3090, 3112), (3114, 3129), (3133, 3133), (3160, 3162),
    (3165, 3165), (3168, 3169), (3174, 3183), (3192, 3198), (3200, 3200), (3205, 3212),
    (3214, 3216), (3218, 3240), (3242, 3251), (3253, 3257), (3261, 3261), (3293, 3294),
    (3296, 3297), (3302, 3311), (3313, 3314), (3332, 3340), (3342, 3344), (3346, 3386),
    (3389, 3389), (3406, 3406), (3412, 3414), (3416, 3425), (3430, 3448), (3450, 3455),
    (3461, 3478), (3482, 3505), (3507, 3515), (3517, 3517), (3520, 3526), (3558, 3567),
    (3585, 3632), (3634, 3635), (3648, 3654), (3664, 3673), (3713, 3714), (3716, 3716),
    (3718, 3722), (3724, 3747), (3749, 3749), (3751, 3760), (3762, 3763), (3773, 3773),
    (3776, 3780), (3782, 3782), (3792, 3801), (3804, 3807), (3840, 3840), (3872, 3891),
    (3904, 3911), (3913, 3948), (3976, 3980), (4096, 4138), (4159, 4169), (4176, 4181),
    (4186, 4189), (4193, 4193), (4197, 4198), (4206, 4208), (4213, 4225), (4238, 4238),
    (4240, 4249), (4256, 4293), (4295, 4295), (4301, 4301), (4304, 4346), (4348, 4680),
    (4682, 4685), (4688, 4694), (4696, 4696), (4698, 4701), (4704, 4744), (4746, 4749),
    (4752, 4784), (4786, 4789), (4792, 4798), (4800, 4800), (4802, 4805), (4808, 4822),
    (4824, 4880), (4882, 4885), (4888, 4954), (4969, 4988), (4992, 5007), (5024, 5109),
    (5112, 5117), (5121, 5740), (5743, 5759), (5761, 5786), (5792, 5866), (5870, 5880),
    (5888, 5905), (5919, 5937), (5952, 5969), (5984, 5996), (5998, 6000), (6016, 6067),
    (6103, 6103), (6108, 6108), (6112, 6121), (6128, 6137), (6160, 6169), (6176, 6264),
    (6272, 6276), (6279, 6312), (6314, 6314), (6320, 6389), (6400, 6430), (6470, 6509),
    (6512, 6516), (6528, 6571), (6576, 6601), (6608, 6618), (6656, 6678), (6688, 6740),
    (6784, 6793), (6800, 6809), (6823, 6823), (6917, 6963), (6981, 6988), (6992, 7001),
    (7043, 7072), (7086, 7141), (7168, 7203), (7232, 7241), (7245, 7293), (7296, 7304),
    (7312, 7354), (7357, 7359), (7401, 7404), (7406, 7411), (7413, 7414), (7418, 7418),
    (7424, 7615), (7680, 7957), (7960, 7965), (7968, 8005), (8008, 8013), (8016, 8023),
    (8025, 8025), (8027, 8027), (8029, 8029), (8031, 8061), (8064, 8116), (8118, 8124),
    (8126, 8126), (8130, 8132), (8134, 8140), (8144, 8147), (8150, 8155), (8160, 8172),
    (8178, 8180), (8182, 8188), (8304, 8305), (8308, 8313), (8319, 8329), (8336, 8348),
    (8450, 8450), (8455, 8455), (8458, 8467), (8469, 8469), (8473, 8477), (8484, 8484),
    (8486, 8486), (8488, 8488), (8490, 8493), (8495, 8505), (8508, 8511), (8517, 8521),
    (8526, 8526), (8528, 8585), (9312, 9371), (9450, 9471), (10102, 10131), (11264, 11492),
    (11499, 11502), (11506, 11507), (11517, 11517), (11520, 11557), (11559, 11559), (11565, 11565),
    (11568, 11623), (11631, 11631), (11648, 11670), (11680, 11686), (11688, 11694), (11696, 11702),
    (11704, 11710), (11712, 11718), (11720, 11726), (11728, 11734), (11736, 11742), (11823, 11823),
    (12293, 12295), (12321, 12329), (12337, 12341), (12344, 12348), (12353, 12438), (12445, 12447),
    (12449, 12538), (12540, 12543), (12549, 12591), (12593, 12686), (12690, 12693), (12704, 12735),
    (12784, 12799), (12832, 12841), (12872, 12879), (12881, 12895), (12928, 12937), (12977, 12991),
    (13312, 19903), (19968, 42124), (42192, 42237), (42240, 42508), (42512, 42539), (42560, 42606),
    (42623, 42653), (42656, 42735), (42775, 42783), (42786, 42888), (42891, 42954), (42960, 42961),
    (42963, 42963), (42965, 42969), (42994, 43009), (43011, 43013), (43015, 43018), (43020, 43042),
    (43056, 43061), (43072, 43123), (43138, 43187), (43216, 43225), (43250, 43255), (43259, 43259),
    (43261, 43262), (43264, 43301), (43312, 43334), (43360, 43388), (43396, 43442), (43471, 43481),
    (43488, 43492), (43494, 43518), (43520, 43560), (43584, 43586), (43588, 43595), (43600, 43609),
    (43616, 43638), (43642, 43642), (43646, 43695), (43697, 43697), (43701, 43702), (43705, 43709),
    (43712, 43712), (43714, 43714), (43739, 43741), (43744, 43754), (43762, 43764), (43777, 43782),
    (43785, 43790), (43793, 43798), (43808, 43814), (43816, 43822), (43824, 43866), (43868, 43881),
    (43888, 44002), (44016, 44025), (44032, 55203), (55216, 55238), (55243, 55291), (63744, 64109),
    (64112, 64217), (64256, 64262), (64275, 64279), (64285, 64285), (64287, 64296), (64298, 64310),
    (64312, 64316), (64318, 64318), (64320, 64321), (64323, 64324), (64326, 64433), (64467, 64829),
    (64848, 64911), (64914, 64967), (65008, 65019), (65136, 65140), (65142, 65276), (65296, 65305),
    (65313, 65338), (65345, 65370), (65382, 65470), (65474, 65479), (65482, 65487), (65490, 65495),
    (65498, 65500), (65536, 65547), (65549, 65574), (65576, 65594), (65596, 65597), (65599, 65613),
    (65616, 65629), (65664, 65786), (65799, 65843), (65856, 65912), (65930, 65931), (66176, 66204),
    (66208, 66256), (66273, 66299), (66304, 66339), (66349, 66378), (66384, 66421), (66432, 66461),
    (66464, 66499), (66504, 66511), (66513, 66517), (66560, 66717), (66720, 66729), (66736, 66771),
    (66776, 66811), (66816, 66855), (66864, 66915), (66928, 66938), (66940, 66954), (66956, 66962),
    (66964, 66965), (66967, 66977), (66979, 66993), (66995, 67001), (67003, 67004), (67072, 67382),
    (67392, 67413), (67424, 67431), (67456, 67461), (67463, 67504), (67506, 67514), (67584, 67589),
    (67592, 67592), (67594, 67637), (67639, 67640), (67644, 67644), (67647, 67669), (67672, 67702),
    (67705, 67742), (67751, 67759), (67808, 67826), (67828, 67829), (67835, 67867), (67872, 67897),
    (67968, 68023), (68028, 68047), (68050, 68096), (68112, 68115), (68117, 68119), (68121, 68149),
    (68160, 68168), (68192, 68222), (68224, 68255), (68288, 68295), (68297, 68324), (68331, 68335),
    (68352, 68405), (68416, 68437), (68440, 68466), (68472, 68497), (68521, 68527), (68608, 68680),
    (68736, 68786), (68800, 68850), (68858, 68899), (68912, 68921), (69216, 69246), (69248, 69289),
    (69296, 69297), (69376, 69415), (69424, 69445), (69457, 69460), (69488, 69505), (69552, 69579),
    (69600, 69622), (69635, 69687), (69714, 69743), (69745, 69746), (69749, 69749), (69763, 69807),
    (69840, 69864), (69872, 69881), (69891, 69926), (69942, 69951), (69956, 69956), (69959, 69959),
    (69968, 70002), (70006, 70006), (70019, 70066), (70081, 70084), (70096, 70106), (70108, 70108),
    (70113, 70132), (70144, 70161), (70163, 70187), (70272, 70278), (70280, 70280), (70282, 70285),
    (70287, 70301), (70303, 70312), (70320, 70366), (70384, 70393), (70405, 70412), (70415, 70416),
    (70419, 70440), (70442, 70448), (70450, 70451), (70453, 70457), (70461, 70461), (70480, 70480),
    (70493, 70497), (70656, 70708), (70727, 70730), (70736, 70745), (70751, 70753), (70784, 70831),
    (70852, 70853), (70855, 70855), (70864, 70873), (71040, 71086), (71128, 71131), (71168, 71215),
    (71236, 71236), (71248, 71257), (71296, 71338), (71352, 71352), (71360, 71369), (71424, 71450),
    (71472, 71483), (71488, 71494), (71680, 71723), (71840, 71922), (71935, 71942), (71945, 71945),
    (71948, 71955), (71957, 71958), (71960, 71983), (71999, 71999), (72001, 72001), (72016, 72025),
    (72096, 72103), (72106, 72144), (72161, 72161), (72163, 72163), (72192, 72192), (72203, 72242),
    (72250, 72250), (72272, 72272), (72284, 72329), (72349, 72349), (72368, 72440), (72704, 72712),
    (72714, 72750), (72768, 72768), (72784, 72812), (72818, 72847), (72960, 72966), (72968, 72969),
    (72971, 73008), (73030, 73030), (73040, 73049), (73056, 73061), (73063, 73064), (73066, 73097),
    (73112, 73112), (73120, 73129), (73440, 73458), (73648, 73648), (73664, 73684), (73728, 74649),
    (74752, 74862), (74880, 75075), (77712, 77808), (77824, 78894), (82944, 83526), (92160, 92728),
    (92736, 92766), (92768, 92777), (92784, 92862), (92864, 92873), (92880, 92909), (92928, 92975),
    (92992, 92995), (93008, 93017), (93019, 93025), (93027, 93047), (93053, 93071), (93760, 93846),
    (93952, 94026), (94032, 94032), (94099, 94111), (94176, 94177), (94179, 94179), (94208, 100343),
    (100352, 101589), (101632, 101640), (110576, 110579), (110581, 110587), (110589, 110590), (110592, 110882),
    (110928, 110930), (110948, 110951), (110960, 111355), (113664, 113770), (113776, 113788), (113792, 113800),
    (113808, 113817), (119520, 119539), (119648, 119672), (119808, 119892), (119894, 119964), (119966, 119967),
    (119970, 119970), (119973, 119974), (119977, 119980), (119982, 119993), (119995, 119995), (119997, 120003),
    (120005, 120069), (120071, 120074), (120077, 120084), (120086, 120092), (120094, 120121), (120123, 120126),
    (120128, 120132), (120134, 120134), (120138, 120144), (120146, 120485), (120488, 120512), (120514, 120538),
    (120540, 120570), (120572, 120596), (120598, 120628), (120630, 120654), (120656, 120686), (120688, 120712),
    (120714, 120744), (120746, 120770), (120772, 120779), (120782, 120831), (122624, 122654), (123136, 123180),
    (123191, 123197), (123200, 123209), (123214, 123214), (123536, 123565), (123584, 123627), (123632, 123641),
    (124896, 124902), (124904, 124907), (124909, 124910), (124912, 124926), (124928, 125124), (125127, 125135),
    (125184, 125251), (125259, 125259), (125264, 125273), (126065, 126123), (126125, 126127), (126129, 126132),
    (126209, 126253), (126255, 126269), (126464, 126467), (126469, 126495), (126497, 126498), (126500, 126500),
    (126503, 126503), (126505, 126514), (126516, 126519), (126521, 126521), (126523, 126523), (126530, 126530),
    (126535, 126535), (126537, 126537), (126539, 126539), (126541, 126543), (126545, 126546), (126548, 126548),
    (126551, 126551), (126553, 126553), (126555, 126555), (126557, 126557), (126559, 126559), (126561, 126562),
    (126564, 126564), (126567, 126570), (126572, 126578), (126580, 126583), (126585, 126588), (126590, 126590),
    (126592, 126601), (126603, 126619), (126625, 126627), (126629, 126633), (126635, 126651), (127232, 127244),
    (130032, 130041), (131072, 173791), (173824, 177976), (177984, 178205), (178208, 183969), (183984, 191456),
    (194560, 195101), (196608, 201546)]"

fun in_ranges :: "nat \<Rightarrow> (nat \<times> nat) list \<Rightarrow> bool" where
  "in_ranges c [] = False"
| "in_ranges c ((lo, hi) # rs) =
     (if c < lo then False else if c \<le> hi then True else in_ranges c rs)"

definition is_digit :: "uchar \<Rightarrow> bool" where
  "is_digit c = in_ranges c unicode_digit_ranges"

definition is_space :: "uchar \<Rightarrow> bool" where
  "is_space c = in_ranges c unicode_space_ranges"

definition is_word :: "uchar \<Rightarrow> bool" where
  "is_word c = in_ranges c unicode_word_ranges"

definition NL :: uchar where
  "NL = 10"

section \<open>A backtracking matcher for the patterns of the program\<close>

text \<open>
  The program is written against Python's \<open>re\<close>: a backtracking matcher in which
  alternatives are tried left to right, greedy repetitions try the longest run first and
  lazy ones the shortest.  The matcher below returns, for a pattern and a position,
  every way the pattern can match there, in exactly that order of preference; the head
  of the list is the match \<open>re\<close> reports.
\<close>

datatype citem = CChar uchar | CRange uchar uchar | CDigit | CSpace

fun citem_ok :: "uchar \<Rightarrow> citem \<Rightarrow> bool" where
  "citem_ok c (CChar d) = (c = d)"
| "citem_ok c (CRange lo hi) = (lo \<le> c \<and> c \<le> hi)"
| "citem_ok c CDigit = is_digit c"
| "citem_ok c CSpace = is_space c"

fun in_class :: "uchar \<Rightarrow> citem list \<Rightarrow> bool" where
  "in_class c [] = False"
| "in_class c (i # is) = (if citem_ok c i then True else in_class c is)"

datatype regex =
    Eps
  | Lit uchar
  | OneOf "citem list"
  | NoneOf "citem list"
  | Dot
  | Seq regex regex
  | Alt regex regex
  | Rep bool nat "nat option" regex
  | Grp nat regex
  | Ahead regex
  | NAhead regex
  | Bol
  | Eol
  | WordB

record flags =
  dotall :: bool
  multiline :: bool

record mstate =
  st_pos :: nat
  st_prev :: "uchar option"
  st_rest :: ustring
  st_caps :: "(nat \<times> ustring) list"

definition step1 :: "(uchar \<Rightarrow> bool) \<Rightarrow> mstate \<Rightarrow> mstate list" where
  "step1 P s =
     (case st_rest s of
        [] \<Rightarrow> []
      | c # cs \<Rightarrow> if P c then [s\<lparr>st_pos := Suc (st_pos s), st_prev := Some c, st_rest := cs\<rparr>] else [])"

definition at_bol :: "flags \<Rightarrow> mstate \<Rightarrow> bool" where
  "at_bol f s = (case st_prev s of None \<Rightarrow> True | Some c \<Rightarrow> multiline f \<and> c = NL)"

definition at_eol :: "flags \<Rightarrow> mstate \<Rightarrow> bool" where
  "at_eol f s =
     (case st_rest s of
        [] \<Rightarrow> True
      | c # cs \<Rightarrow> c = NL \<and> (multiline f \<or> cs = []))"

definition at_wordb :: "mstate \<Rightarrow> bool" where
  "at_wordb s =
     ((case st_prev s of None \<Rightarrow> False | Some c \<Rightarrow> is_word c)
      \<noteq> (case st_rest s of [] \<Rightarrow> False | c # _ \<Rightarrow> is_word c))"

text \<open>
  \<open>rep m greedy lo hi fuel s\<close>: between \<open>lo\<close> and \<open>hi\<close> (unbounded for \<open>None\<close>)
  iterations of the matcher \<open>m\<close>.  An optional iteration that consumes nothing is cut,
  as \<open>re\<close> does; every other iteration consumes a character, so a fuel of
  \<open>lo + length (st_rest s) + 1\<close> is never exhausted.
\<close>

fun rep :: "(mstate \<Rightarrow> mstate list) \<Rightarrow> bool \<Rightarrow> nat \<Rightarrow> nat option \<Rightarrow> nat \<Rightarrow> mstate \<Rightarrow> mstate list" where
  "rep m g lo hi 0 s = (if lo = 0 then [s] else [])"
| "rep m g lo hi (Suc n) s =
     (let more =
            (if hi = Some 0 then []
             else concat (map (\<lambda>s'. if lo = 0 \<and> st_pos s' = st_pos s then []
                                      else rep m g (lo - 1) (map_option (\<lambda>h. h - 1) hi) n s')
                              (m s)));
          stop = (if lo = 0 then [s] else [])
      in if g then more @ stop else stop @ more)"

primrec ms :: "flags \<Rightarrow> regex \<Rightarrow> mstate \<Rightarrow> mstate list" where
  "ms f Eps s = [s]"
| "ms f (Lit c) s = step1 (\<lambda>x. x = c) s"
| "ms f (OneOf is) s = step1 (\<lambda>x. in_class x is) s"
| "ms f (NoneOf is) s = step1 (\<lambda>x. \<not> in_class x is) s"
| "ms f Dot s = step1 (\<lambda>x. dotall f \<or> x \<noteq> NL) s"
| "ms f (Seq a b) s = concat (map (ms f b) (ms f a s))"
| "ms f (Alt a b) s = ms f a s @ ms f b s"
| "ms f (Rep g lo hi r) s = rep (ms f r) g lo hi (lo + Suc (length (st_rest s))) s"
| "ms f (Grp i r) s =
     map (\<lambda>s'. s'\<lparr>st_caps := (i, take (st_pos s' - st_pos s) (st_rest s)) # st_caps s'\<rparr>) (ms f r s)"
| "ms f (Ahead r) s = (case ms f r s of [] \<Rightarrow> [] | s' # _ \<Rightarrow> [s\<lparr>st_caps := st_caps s'\<rparr>])"
| "ms f (NAhead r) s = (case ms f r s of [] \<Rightarrow> [s] | _ # _ \<Rightarrow> [])"
| "ms f Bol s = (if at_bol f s then [s] else [])"
| "ms f Eol s = (if at_eol f s then [s] else [])"
| "ms f WordB s = (if at_wordb s then [s] else [])"

text \<open>Pattern syntax: literals, sequences, alternatives and the usual quantifiers.\<close>

definition lits :: "ustring \<Rightarrow> regex" where
  "lits cs = foldr (\<lambda>c r. Seq (Lit c) r) cs Eps"

definition seqs :: "regex list \<Rightarrow> regex" where
  "seqs rs = foldr Seq rs Eps"

fun alts :: "regex list \<Rightarrow> regex" where
  "alts [] = NAhead Eps"
| "alts [r] = r"
| "alts (r # rs) = Alt r (alts rs)"

abbreviation star :: "regex \<Rightarrow> regex" where "star r \<equiv> Rep True 0 None r"
abbreviation lazy_star :: "regex \<Rightarrow> regex" where "lazy_star r \<equiv> Rep False 0 None r"
abbreviation plus1 :: "regex \<Rightarrow> regex" where "plus1 r \<equiv> Rep True 1 None r"
abbreviation opt :: "regex \<Rightarrow> regex" where "opt r \<equiv> Rep True 0 (Some 1) r"
abbreviation digit :: regex where "digit \<equiv> OneOf [CDigit]"
abbreviation space :: regex where "space \<equiv> OneOf [CSpace]"

text \<open>
  A match object: \<open>m.start()\<close>, \<open>m.end()\<close> and the groups that took part.
\<close>

record rmatch =
  m_start :: nat
  m_end :: nat
  m_caps :: "(nat \<times> ustring) list"

definition group :: "rmatch \<Rightarrow> nat \<Rightarrow> ustring option" where
  "group m i = map_of (m_caps m) i"

definition mk_match :: "nat \<Rightarrow> mstate \<Rightarrow> rmatch" where
  "mk_match p s = \<lparr>m_start = p, m_end = st_pos s, m_caps = st_caps s\<rparr>"

definition start_state :: "nat \<Rightarrow> uchar option \<Rightarrow> ustring \<Rightarrow> mstate" where
  "start_state p c cs = \<lparr>st_pos = p, st_prev = c, st_rest = cs, st_caps = []\<rparr>"

text \<open>\<open>re.match\<close>: the pattern anchored at the start of the text.\<close>

definition re_match :: "flags \<Rightarrow> regex \<Rightarrow> ustring \<Rightarrow> rmatch option" where
  "re_match f r t =
     (case ms f r (start_state 0 None t) of [] \<Rightarrow> None | s # _ \<Rightarrow> Some (mk_match 0 s))"

text \<open>\<open>re.search\<close>: the first position, from the left, where the pattern matches.\<close>

fun search_from :: "flags \<Rightarrow> regex \<Rightarrow> nat \<Rightarrow> uchar option \<Rightarrow> ustring \<Rightarrow> rmatch option" where
  "search_from f r p c [] =
     (case ms f r (start_state p c []) of [] \<Rightarrow> None | s # _ \<Rightarrow> Some (mk_match p s))"
| "search_from f r p c (x # xs) =
     (case ms f r (start_state p c (x # xs)) of
        [] \<Rightarrow> search_from f r (Suc p) (Some x) xs
      | s # _ \<Rightarrow> Some (mk_match p s))"

definition re_search :: "flags \<Rightarrow> regex \<Rightarrow> ustring \<Rightarrow> rmatch option" where
  "re_search f r t = search_from f r 0 None t"

text \<open>
  \<open>re.finditer\<close>: the non-overlapping matches from left to right.  \<open>skip\<close> counts the
  characters still covered by the previous match.  Every pattern the program hands to
  \<open>finditer\<close>, \<open>findall\<close>, \<open>split\<close> or \<open>sub\<close> consumes at least one character, and
  for such patterns this scan is the one \<open>re\<close> performs.
\<close>

fun scan :: "flags \<Rightarrow> regex \<Rightarrow> nat \<Rightarrow> nat \<Rightarrow> uchar option \<Rightarrow> ustring \<Rightarrow> rmatch list" where
  "scan f r skip p c [] =
     (if skip = 0
      then (case ms f r (start_state p c []) of [] \<Rightarrow> [] | s # _ \<Rightarrow> [mk_match p s])
      else [])"
| "scan f r skip p c (x # xs) =
     (if skip > 0 then scan f r (skip - 1) (Suc p) (Some x) xs
      else case ms f r (start_state p c (x # xs)) of
             [] \<Rightarrow> scan f r 0 (Suc p) (Some x) xs
           | s # _ \<Rightarrow> mk_match p s # scan f r (st_pos s - p - 1) (Suc p) (Some x) xs)"

definition finditer :: "flags \<Rightarrow> regex \<Rightarrow> ustring \<Rightarrow> rmatch list" where
  "finditer f r t = scan f r 0 0 None t"

text \<open>The pieces of the text between consecutive matches, \<open>t[p : m.start()]\<close>.\<close>

fun pieces :: "ustring \<Rightarrow> nat \<Rightarrow> rmatch list \<Rightarrow> ustring list" where
  "pieces t p [] = [drop p t]"
| "pieces t p (m # rs) = take (m_start m - p) (drop p t) # pieces t (m_end m) rs"

definition noflags :: flags where
  "noflags = \<lparr>dotall = False, multiline = False\<rparr>"

definition DOTALL :: flags where
  "DOTALL = \<lparr>dotall = True, multiline = False\<rparr>"

definition MULTILINE :: flags where
  "MULTILINE = \<lparr>dotall = False, multiline = True\<rparr>"

definition MULTILINE_DOTALL :: flags where
  "MULTILINE_DOTALL = \<lparr>dotall = True, multiline = True\<rparr>"


section \<open>Python values the parsers use\<close>

datatype py_error = ValueError | TypeError | AttributeError | KeyError | IndexError

text \<open>
  \<open>int(s)\<close> on text.  The program applies it to texts captured by \<open>\d+\<close> only: a
  non-empty run of decimal digits, each read by its place in its block of ten.  On any
  other text the model raises \<open>ValueError\<close> (\<open>int\<close> itself also reads signs, blanks
  and underscores), so that a result \<open>Inr n\<close> always is what Python computes.
\<close>

fun digit_val :: "(nat \<times> nat) list \<Rightarrow> uchar \<Rightarrow> nat" where
  "digit_val [] c = 0"
| "digit_val ((lo, hi) # rs) c =
     (if lo \<le> c \<and> c \<le> hi then (c - lo) mod 10 else digit_val rs c)"

definition digits_value :: "ustring \<Rightarrow> nat" where
  "digits_value s = foldl (\<lambda>a c. 10 * a + digit_val unicode_digit_ranges c) 0 s"

definition py_int :: "ustring \<Rightarrow> py_error + nat" where
  "py_int s = (if s \<noteq> [] \<and> list_all is_digit s then Inr (digits_value s) else Inl ValueError)"

text \<open>\<open>int(m.group(i))\<close>: a group that took no part is \<open>None\<close>, and \<open>int(None)\<close> raises.\<close>

definition group_int :: "rmatch \<Rightarrow> nat \<Rightarrow> py_error + nat" where
  "group_int m i = (case group m i of None \<Rightarrow> Inl TypeError | Some s \<Rightarrow> py_int s)"

text \<open>\<open>m.group(i).strip()\<close>: \<open>None\<close> has no \<open>strip\<close>.\<close>

definition strip :: "ustring \<Rightarrow> ustring" where
  "strip s = rev (dropWhile is_space (rev (dropWhile is_space s)))"

definition group_strip :: "rmatch \<Rightarrow> nat \<Rightarrow> py_error + ustring" where
  "group_strip m i = (case group m i of None \<Rightarrow> Inl AttributeError | Some s \<Rightarrow> Inr (strip s))"

text \<open>\<open>t[a:b]\<close> for \<open>0 \<le> a\<close>, \<open>0 \<le> b\<close>.\<close>

definition slice :: "ustring \<Rightarrow> nat \<Rightarrow> nat \<Rightarrow> ustring" where
  "slice t a b = take (b - a) (drop a t)"

text \<open>\<open>sub in t\<close> on texts.\<close>

fun is_prefix :: "ustring \<Rightarrow> ustring \<Rightarrow> bool" where
  "is_prefix [] t = True"
| "is_prefix (c # cs) [] = False"
| "is_prefix (c # cs) (x # xs) = (if c = x then is_prefix cs xs else False)"

fun contains :: "ustring \<Rightarrow> ustring \<Rightarrow> bool" where
  "contains t [] = True"
| "contains [] (c # cs) = False"
| "contains (x # xs) (c # cs) = (if is_prefix (c # cs) (x # xs) then True else contains xs (c # cs))"

text \<open>
  \<open>re.split\<close> for a pattern without groups, and for a pattern with one group, whose
  value (\<open>None\<close> if it took no part) is put between the pieces.
\<close>

definition re_split0 :: "flags \<Rightarrow> regex \<Rightarrow> ustring \<Rightarrow> ustring list" where
  "re_split0 f r t = pieces t 0 (finditer f r t)"

fun interleave :: "ustring \<Rightarrow> nat \<Rightarrow> rmatch list \<Rightarrow> ustring option list" where
  "interleave t p [] = [Some (drop p t)]"
| "interleave t p (m # rs) =
     Some (take (m_start m - p) (drop p t)) # group m 1 # interleave t (m_end m) rs"

definition re_split1 :: "flags \<Rightarrow> regex \<Rightarrow> ustring \<Rightarrow> ustring option list" where
  "re_split1 f r t = interleave t 0 (finditer f r t)"

text \<open>\<open>re.sub(r, repl, t)\<close> for a constant replacement text.\<close>

definition re_sub :: "flags \<Rightarrow> regex \<Rightarrow> ustring \<Rightarrow> ustring \<Rightarrow> ustring" where
  "re_sub f r repl t =
     (case pieces t 0 (finditer f r t) of
        [] \<Rightarrow> []
      | p # ps \<Rightarrow> p @ concat (map (\<lambda>q. repl @ q) ps))"

text \<open>
  \<open>re.findall\<close> for a pattern with two groups: the pairs of group values, the empty
  text for a group that took no part.
\<close>

definition group_or_empty :: "rmatch \<Rightarrow> nat \<Rightarrow> ustring" where
  "group_or_empty m i = (case group m i of None \<Rightarrow> [] | Some s \<Rightarrow> s)"

definition findall2 :: "flags \<Rightarrow> regex \<Rightarrow> ustring \<Rightarrow> (ustring \<times> ustring) list" where
  "findall2 f r t = map (\<lambda>m. (group_or_empty m 1, group_or_empty m 2)) (finditer f r t)"

text \<open>Dictionaries keep insertion order; \<open>d[k] = v\<close> is \<open>AList.update k v d\<close>.\<close>

definition dict_get :: "('k \<times> 'v) list \<Rightarrow> 'k \<Rightarrow> 'v \<Rightarrow> 'v" where
  "dict_get d k dflt = (case map_of d k of None \<Rightarrow> dflt | Some v \<Rightarrow> v)"

section \<open>Literals of the patterns\<close>

text \<open>
  The pattern literals, by code point.
  \<open>cankao_daan\<close>: U+53C2 U+8003 U+7B54 U+6848 (reference answers);
  \<open>daan\<close>: U+7B54 U+6848 (answer); \<open>jiexi\<close>: U+89E3 U+6790 (analysis);
  \<open>ji\<close>: U+53CA (and);
  \<open>yi_dun\<close>, \<open>er_dun\<close>, \<open>san_dun\<close>: the section numerals one, two, three (U+4E00, U+4E8C,
  U+4E09) followed by the enumeration comma U+3001;
  \<open>danxiang_xuanzeti\<close>: U+5355 U+9879 U+9009 U+62E9 U+9898 (single-choice questions);
  \<open>duoxiang_xuanzeti\<close>: U+591A U+9879 U+9009 U+62E9 U+9898 (multi-choice questions);
  \<open>anli\<close>: U+6848 U+4F8B (case); \<open>ti\<close>: U+9898 (question);
  \<open>shiwu_caozuo_he\<close>: U+5B9E U+52A1 U+64CD U+4F5C U+548C (practical operation and);
  \<open>beijing\<close>: U+80CC U+666F (background); \<open>beijing_ziliao\<close>: U+80CC U+666F U+8D44
  U+6599 (background material); \<open>wen\<close>: U+95EE, with \<open>ti\<close> the word "question(s)";
  \<open>zhengque\<close>: U+6B63 U+786E (correct); U+221A is the check mark;
  \<open>danxuanti\<close>, \<open>duoxuanti\<close>, \<open>anliti\<close>: the three question-type labels
  U+5355 U+9009 U+9898, U+591A U+9009 U+9898, U+6848 U+4F8B U+9898.
  U+3010 and U+3011 are the lenticular brackets, U+FF08 and U+FF09 the full-width
  parentheses, U+FF1A the full-width colon, U+FF0C the full-width comma, U+FF0E the
  full-width full stop.
\<close>

definition cankao_daan :: ustring where "cankao_daan = [0x53C2, 0x8003, 0x7B54, 0x6848]"
definition daan :: ustring where "daan = [0x7B54, 0x6848]"
definition jiexi :: ustring where "jiexi = [0x89E3, 0x6790]"
definition ji :: ustring where "ji = [0x53CA]"
definition yi_dun :: ustring where "yi_dun = [0x4E00, 0x3001]"
definition er_dun :: ustring where "er_dun = [0x4E8C, 0x3001]"
definition san_dun :: ustring where "san_dun = [0x4E09, 0x3001]"
definition danxiang_xuanzeti :: ustring where
  "danxiang_xuanzeti = [0x5355, 0x9879, 0x9009, 0x62E9, 0x9898]"
definition duoxiang_xuanzeti :: ustring where
  "duoxiang_xuanzeti = [0x591A, 0x9879, 0x9009, 0x62E9, 0x9898]"
definition anli :: ustring where "anli = [0x6848, 0x4F8B]"
definition ti :: uchar where "ti = 0x9898"
definition shiwu_caozuo_he :: ustring where
  "shiwu_caozuo_he = [0x5B9E, 0x52A1, 0x64CD, 0x4F5C, 0x548C]"
definition beijing :: ustring where "beijing = [0x80CC, 0x666F]"
definition beijing_ziliao :: ustring where "beijing_ziliao = [0x80CC, 0x666F, 0x8D44, 0x6599]"
definition wen :: uchar where "wen = 0x95EE"
definition zhengque :: ustring where "zhengque = [0x6B63, 0x786E]"
definition danxuanti :: ustring where "danxuanti = [0x5355, 0x9009, 0x9898]"
definition duoxuanti :: ustring where "duoxuanti = [0x591A, 0x9009, 0x9898]"
definition anliti :: ustring where "anliti = [0x6848, 0x4F8B, 0x9898]"
definition daan_bracketed :: ustring where "daan_bracketed = [0x3010, 0x7B54, 0x6848, 0x3011]"
definition jiexi_bracketed :: ustring where "jiexi_bracketed = [0x3010, 0x89E3, 0x6790, 0x3011]"

text \<open>\<open>[.\<dots>]\<close> with the ideographic comma U+3001 and the full-width stop: after a number.\<close>

definition num_punct :: regex where
  "num_punct = OneOf [CChar 0x2E, CChar 0x3001, CChar 0xFF0E]"

text \<open>The full-width or the ASCII colon.\<close>

definition colon :: regex where
  "colon = OneOf [CChar 0xFF1A, CChar 0x3A]"

text \<open>\<open>[A-E]\<close>.\<close>

definition letter_AE :: regex where
  "letter_AE = OneOf [CRange 0x41 0x45]"

text \<open>The Chinese numerals one to ten, \<open>[\<dots>]\<close> over U+4E00 U+4E8C U+4E09 U+56DB U+4E94
  U+516D U+4E03 U+516B U+4E5D U+5341; and the first five of them.\<close>

definition cn_numeral :: regex where
  "cn_numeral = OneOf [CChar 0x4E00, CChar 0x4E8C, CChar 0x4E09, CChar 0x56DB, CChar 0x4E94,
                       CChar 0x516D, CChar 0x4E03, CChar 0x516B, CChar 0x4E5D, CChar 0x5341]"

definition cn_numeral5 :: regex where
  "cn_numeral5 = OneOf [CChar 0x4E00, CChar 0x4E8C, CChar 0x4E09, CChar 0x56DB, CChar 0x4E94]"

definition lparen :: regex where "lparen = OneOf [CChar 0xFF08, CChar 0x28]"
definition rparen :: regex where "rparen = OneOf [CChar 0xFF09, CChar 0x29]"


section \<open>The question parser (\<open>exam_parser.py\<close>)\<close>

text \<open>
  \<open>re.IGNORECASE\<close> is passed with some patterns below.  Their literals are CJK
  characters and punctuation, which have no case variants, so the flag changes no match
  and is not modelled.  The \<open>print\<close> calls are not modelled either.
\<close>

subsection \<open>Section headers and type ranges\<close>

datatype qtype = Single | Multi | CaseQ

type_synonym type_ranges = "(qtype \<times> (nat \<times> nat)) list"

text \<open>
  The three header patterns: the section numeral, the type name with any characters of
  the line in between (U+5355 ... U+9009 ... U+9898 for single choice, U+591A ... for
  multiple choice, \<open>anli\<close> ... for cases), then U+5171 (in total), the count and
  \<open>ti\<close>.
\<close>

definition count_suffix :: "regex list" where
  "count_suffix = [lazy_star Dot, Lit ti, lazy_star Dot, Lit 0x5171, star space,
                   Grp 1 (plus1 digit), star space, Lit ti]"

definition single_header :: regex where
  "single_header = seqs ([lits yi_dun, star space, Lit 0x5355, lazy_star Dot, Lit 0x9009] @ count_suffix)"

definition multi_header :: regex where
  "multi_header = seqs ([lits er_dun, star space, Lit 0x591A, lazy_star Dot, Lit 0x9009] @ count_suffix)"

definition case_header :: regex where
  "case_header = seqs ([lits san_dun, star space, lits anli] @ count_suffix)"

definition detect_question_type_ranges :: "ustring \<Rightarrow> py_error + type_ranges" where
  "detect_question_type_ranges text =
     (case (case re_search noflags single_header text of
              None \<Rightarrow> Inr []
            | Some single_match \<Rightarrow>
                (case group_int single_match 1 of
                   Inl e \<Rightarrow> Inl e
                 | Inr single_count \<Rightarrow> Inr [(Single, (1, single_count))])) of
        Inl e \<Rightarrow> Inl e
      | Inr tr1 \<Rightarrow>
     (case (case re_search noflags multi_header text of
              None \<Rightarrow> Inr tr1
            | Some multi_match \<Rightarrow>
                (case group_int multi_match 1 of
                   Inl e \<Rightarrow> Inl e
                 | Inr multi_count \<Rightarrow>
                     (let single_end = snd (dict_get tr1 Single (0, 0))
                      in Inr (AList.update Multi (single_end + 1, single_end + multi_count) tr1)))) of
        Inl e \<Rightarrow> Inl e
      | Inr tr2 \<Rightarrow>
     (case re_search noflags case_header text of
        None \<Rightarrow> Inr tr2
      | Some case_match \<Rightarrow>
          (case group_int case_match 1 of
             Inl e \<Rightarrow> Inl e
           | Inr case_count \<Rightarrow>
               (let multi_end0 = snd (dict_get tr2 Multi (0, 0));
                    multi_end = (if multi_end0 = 0 then snd (dict_get tr2 Single (0, 0))
                                 else multi_end0)
                in Inr (AList.update CaseQ (multi_end + 1, multi_end + case_count) tr2))))))"

subsection \<open>One question\<close>

record exam_question =
  q_number :: nat
  q_type :: qtype
  q_question :: ustring
  q_options :: "(ustring option \<times> ustring) list"
  q_answer :: "ustring option"
  q_analysis :: "ustring option"
  q_knowledge_points :: "ustring list"
  q_difficulty :: "ustring option"

text \<open>\<open>_is_multi_choice\<close>: an inline answer of more than one letter.\<close>

definition inline_answer :: regex where
  "inline_answer = seqs [lits daan, colon, star space, Grp 1 (plus1 letter_AE)]"

definition is_multi_choice :: "ustring \<Rightarrow> py_error + bool" where
  "is_multi_choice text =
     (case re_search noflags inline_answer text of
        None \<Rightarrow> Inr False
      | Some answer_match \<Rightarrow>
          (case group answer_match 1 of
             None \<Rightarrow> Inl TypeError
           | Some answer \<Rightarrow> Inr (length answer > 1)))"

text \<open>
  \<open>_extract_question_and_options\<close>.  The type tag (a type label in full-width
  parentheses or lenticular brackets) is removed; an option starts at a line break,
  optional blanks, a letter A to E and a \<open>num_punct\<close>; an option's text ends at the
  first inline answer or analysis marker.
\<close>

definition type_tag :: regex where
  "type_tag = seqs [OneOf [CChar 0xFF08, CChar 0x3010],
                    alts [lits danxuanti, lits duoxuanti, lits anliti],
                    OneOf [CChar 0xFF09, CChar 0x3011]]"

definition option_pattern :: regex where
  "option_pattern = seqs [Lit NL, star space, Grp 1 letter_AE, num_punct]"

definition answer_or_analysis_marker :: regex where
  "answer_or_analysis_marker =
     alts [Seq (lits daan) colon, Seq (lits jiexi) colon, lits daan_bracketed, lits jiexi_bracketed]"

fun fill_options ::
  "ustring \<Rightarrow> rmatch list \<Rightarrow> (ustring option \<times> ustring) list
   \<Rightarrow> py_error + (ustring option \<times> ustring) list" where
  "fill_options text [] opts = Inr opts"
| "fill_options text (m # rs) opts =
     (let option_letter = group m 1;
          start = m_end m;
          end = (case rs of [] \<Rightarrow> length text | n # _ \<Rightarrow> m_start n);
          option_text = strip (slice text start end)
      in case re_split0 noflags answer_or_analysis_marker option_text of
           [] \<Rightarrow> Inl IndexError
         | p # _ \<Rightarrow> fill_options text rs (AList.update option_letter (strip p) opts))"

definition extract_question_and_options ::
  "ustring \<Rightarrow> py_error + (ustring \<times> (ustring option \<times> ustring) list)" where
  "extract_question_and_options text0 =
     (let text = re_sub noflags type_tag [] text0;
          option_matches = finditer noflags option_pattern text
      in case option_matches of
           [] \<Rightarrow> Inr (strip text, [])
         | m0 # _ \<Rightarrow>
             (case fill_options text option_matches [] of
                Inl e \<Rightarrow> Inl e
              | Inr opts \<Rightarrow> Inr (strip (take (m_start m0) text), opts)))"

text \<open>\<open>_extract_answer\<close>: four label patterns, the first that matches decides.\<close>

definition answer_patterns :: "regex list" where
  "answer_patterns =
     [seqs [lits daan, colon, star space, Grp 1 (plus1 letter_AE)],
      seqs [lits daan_bracketed, star space, Grp 1 (plus1 letter_AE)],
      seqs [lits zhengque, lits daan, colon, star space, Grp 1 (plus1 letter_AE)],
      seqs [Lit NL, star space, Grp 1 (plus1 letter_AE), star space,
            Alt (lits zhengque) (Lit 0x221A)]]"

fun first_search :: "flags \<Rightarrow> regex list \<Rightarrow> ustring \<Rightarrow> rmatch option" where
  "first_search f [] t = None"
| "first_search f (r # rs) t =
     (case re_search f r t of None \<Rightarrow> first_search f rs t | Some m \<Rightarrow> Some m)"

definition extract_answer :: "ustring \<Rightarrow> ustring option" where
  "extract_answer text =
     (case first_search noflags answer_patterns text of None \<Rightarrow> None | Some m \<Rightarrow> group m 1)"

text \<open>\<open>_extract_analysis\<close>: the text after an analysis label, up to the next numbered
  line or the end.\<close>

definition analysis_end :: regex where
  "analysis_end = Ahead (Alt (seqs [Lit NL, plus1 digit, num_punct]) Eol)"

definition inline_analysis_patterns :: "regex list" where
  "inline_analysis_patterns =
     [seqs [lits jiexi, colon, Grp 1 (lazy_star Dot), analysis_end],
      seqs [lits jiexi_bracketed, Grp 1 (lazy_star Dot), analysis_end],
      seqs [lits daan, lits jiexi, colon, Grp 1 (lazy_star Dot), analysis_end]]"

definition extract_analysis :: "ustring \<Rightarrow> py_error + ustring option" where
  "extract_analysis text =
     (case first_search DOTALL inline_analysis_patterns text of
        None \<Rightarrow> Inr None
      | Some m \<Rightarrow> (case group_strip m 1 of Inl e \<Rightarrow> Inl e | Inr a \<Rightarrow> Inr (Some a)))"

text \<open>
  \<open>_parse_single_question\<close>.  The type comes from the first range that holds the
  number, otherwise from the text: a multi-choice tag or a multi-letter inline answer,
  a case tag or \<open>beijing_ziliao\<close>, else single choice.  A question with an empty stem
  is dropped (\<open>None\<close>).
\<close>

definition type_from_text :: "ustring \<Rightarrow> py_error + qtype" where
  "type_from_text text =
     (case (if contains text ([0xFF08] @ duoxuanti @ [0xFF09]) then Inr True
            else if contains text ([0x3010] @ duoxuanti @ [0x3011]) then Inr True
            else is_multi_choice text) of
        Inl e \<Rightarrow> Inl e
      | Inr True \<Rightarrow> Inr Multi
      | Inr False \<Rightarrow>
          (if contains text ([0xFF08] @ anliti @ [0xFF09]) \<or> contains text ([0x3010] @ anliti @ [0x3011])
              \<or> contains text beijing_ziliao
           then Inr CaseQ else Inr Single))"

definition type_from_ranges :: "type_ranges \<Rightarrow> nat \<Rightarrow> qtype option" where
  "type_from_ranges tr n =
     (if tr \<noteq> [] then map_option fst (find (\<lambda>(q, (start, end)). start \<le> n \<and> n \<le> end) tr)
      else None)"

definition parse_single_question ::
  "ustring option \<Rightarrow> ustring \<Rightarrow> type_ranges \<Rightarrow> py_error + exam_question option" where
  "parse_single_question num text tr =
     (case (case num of None \<Rightarrow> Inl TypeError | Some s \<Rightarrow> py_int s) of
        Inl e \<Rightarrow> Inl e
      | Inr n \<Rightarrow>
     (case (case type_from_ranges tr n of Some t \<Rightarrow> Inr t | None \<Rightarrow> type_from_text text) of
        Inl e \<Rightarrow> Inl e
      | Inr t \<Rightarrow>
     (case extract_question_and_options text of
        Inl e \<Rightarrow> Inl e
      | Inr (stem, opts) \<Rightarrow>
     (case extract_analysis text of
        Inl e \<Rightarrow> Inl e
      | Inr an \<Rightarrow>
          (if stem = [] then Inr None
           else Inr (Some \<lparr>q_number = n, q_type = t, q_question = stem, q_options = opts,
                           q_answer = extract_answer text, q_analysis = an,
                           q_knowledge_points = [], q_difficulty = None\<rparr>))))))"

subsection \<open>Segmentation into questions\<close>

text \<open>
  The case section (from the case header to \<open>cankao_daan\<close> or the end) is cut out of
  the text; of the answer appendix, the part before the first parenthesised numeral is
  kept.
\<close>

definition case_section_pattern :: regex where
  "case_section_pattern =
     seqs [lits san_dun, star space, lits anli, lazy_star Dot, Lit ti, lazy_star Dot,
           Ahead (Alt (lits cankao_daan) Eol)]"

definition case_answer_pattern :: regex where
  "case_answer_pattern = seqs [lparen, cn_numeral5, rparen]"

definition main_text_of :: "ustring \<Rightarrow> ustring" where
  "main_text_of text =
     (case re_search DOTALL case_section_pattern text of
        None \<Rightarrow> text
      | Some case_section_match \<Rightarrow>
          (let main_text = take (m_start case_section_match) text
           in case re_search noflags (lits cankao_daan) text of
                None \<Rightarrow> main_text
              | Some answer_start \<Rightarrow>
                  (let answer_text = drop (m_start answer_start) text
                   in case re_search noflags case_answer_pattern answer_text of
                        Some case_answer_match \<Rightarrow>
                          main_text @ take (m_start case_answer_match) answer_text
                      | None \<Rightarrow> main_text @ answer_text)))"

text \<open>
  The primary recognizer: at the start of the text or after a line break, a number and
  a \<open>num_punct\<close>.  The fallback: a number directly followed by a CJK ideograph
  (U+4E00 to U+9FA5).
\<close>

definition question_pattern :: regex where
  "question_pattern = seqs [Alt Bol (Lit NL), Grp 1 (plus1 digit), num_punct, star space]"

definition fallback_pattern :: regex where
  "fallback_pattern =
     seqs [Alt Bol (Lit NL), Grp 1 (plus1 digit), Ahead (OneOf [CRange 0x4E00 0x9FA5])]"

definition split_questions :: "ustring \<Rightarrow> ustring option list" where
  "split_questions main_text =
     (let parts = re_split1 noflags question_pattern main_text
      in if length parts < 10 then re_split1 noflags fallback_pattern main_text else parts)"

fun parse_parts :: "type_ranges \<Rightarrow> ustring option list \<Rightarrow> py_error + exam_question list" where
  "parse_parts tr (question_num # question_text # later) =
     (case (case question_text of
              None \<Rightarrow> Inl TypeError
            | Some t \<Rightarrow> parse_single_question question_num t tr) of
        Inl e \<Rightarrow> Inl e
      | Inr q \<Rightarrow>
          (case parse_parts tr later of
             Inl e \<Rightarrow> Inl e
           | Inr qs \<Rightarrow> Inr ((case q of None \<Rightarrow> [] | Some x \<Rightarrow> [x]) @ qs)))"
| "parse_parts tr [question_num] = Inr []"
| "parse_parts tr [] = Inr []"

definition parse_questions :: "ustring \<Rightarrow> py_error + exam_question list" where
  "parse_questions text =
     (case detect_question_type_ranges text of
        Inl e \<Rightarrow> Inl e
      | Inr tr \<Rightarrow> parse_parts tr (drop 1 (split_questions (main_text_of text))))"


section \<open>The answer appendix (\<open>exam_parser.py\<close>)\<close>

text \<open>
  \<open>answers\<close> maps a question number to a dictionary with the optional keys
  \<open>'answer'\<close> and \<open>'analysis'\<close>; an absent key is \<open>None\<close>.
\<close>

record answer_info =
  a_answer :: "ustring option"
  a_analysis :: "ustring option"

type_synonym answers = "(nat \<times> answer_info) list"

definition empty_info :: answer_info where
  "empty_info = \<lparr>a_answer = None, a_analysis = None\<rparr>"

text \<open>
  \<open>if num not in answers: answers[num] = {}\<close> followed by
  \<open>answers[num]['answer'] = answer\<close>.
\<close>

definition set_answer :: "answers \<Rightarrow> nat \<Rightarrow> ustring \<Rightarrow> answers" where
  "set_answer d num a = AList.update num ((dict_get d num empty_info)\<lparr>a_answer := Some a\<rparr>) d"

text \<open>The same with the count \<open>total_found\<close> of numbers that were new.\<close>

definition store_pair :: "nat \<times> answers \<Rightarrow> nat \<Rightarrow> ustring \<Rightarrow> nat \<times> answers" where
  "store_pair acc num a =
     ((if map_of (snd acc) num = None then fst acc + 1 else fst acc), set_answer (snd acc) num a)"

subsection \<open>The space-separated layout\<close>

text \<open>
  The single-choice region: \<open>yi_dun\<close>, \<open>danxiang_xuanzeti\<close>, the rest of the header
  line, then everything up to \<open>er_dun\<close>, \<open>san_dun\<close> or the end.  The multi-choice region
  likewise from \<open>er_dun\<close>, \<open>duoxiang_xuanzeti\<close> up to \<open>san_dun\<close> or the end.
\<close>

definition single_region :: regex where
  "single_region =
     seqs [lits yi_dun, star space, lits danxiang_xuanzeti, lazy_star Dot, Lit NL,
           Grp 1 (lazy_star Dot), Ahead (alts [lits er_dun, lits san_dun, Eol])]"

definition multi_region :: regex where
  "multi_region =
     seqs [lits er_dun, star space, lits duoxiang_xuanzeti, lazy_star Dot, Lit NL,
           Grp 1 (lazy_star Dot), Ahead (alts [lits san_dun, Eol])]"

definition single_pair :: regex where
  "single_pair = seqs [Grp 1 (plus1 digit), plus1 space, Grp 2 letter_AE, WordB]"

definition multi_pair :: regex where
  "multi_pair = seqs [Grp 1 (plus1 digit), plus1 space, Grp 2 (Rep True 2 None letter_AE), WordB]"

fun store_singles :: "(ustring \<times> ustring) list \<Rightarrow> nat \<times> answers \<Rightarrow> py_error + nat \<times> answers" where
  "store_singles [] acc = Inr acc"
| "store_singles ((num_str, answer) # rest) acc =
     (case py_int num_str of
        Inl e \<Rightarrow> Inl e
      | Inr num \<Rightarrow> store_singles rest (store_pair acc num answer))"

text \<open>The largest number whose answer so far has exactly one letter, 0 if there is none.\<close>

definition max_single_of :: "answers \<Rightarrow> nat" where
  "max_single_of d =
     foldl (\<lambda>max_single (num, info).
              if (case a_answer info of None \<Rightarrow> False | Some a \<Rightarrow> a \<noteq> [] \<and> length a = 1)
              then max max_single num else max_single) 0 d"

fun store_multis :: "nat \<Rightarrow> (ustring \<times> ustring) list \<Rightarrow> nat \<times> answers \<Rightarrow> py_error + nat \<times> answers" where
  "store_multis max_single [] acc = Inr acc"
| "store_multis max_single ((num_str, answer) # rest) acc =
     (case py_int num_str of
        Inl e \<Rightarrow> Inl e
      | Inr num \<Rightarrow> store_multis max_single rest (store_pair acc (max_single + num) answer))"

definition extract_spaced_singles :: "ustring \<Rightarrow> nat \<times> answers \<Rightarrow> py_error + nat \<times> answers" where
  "extract_spaced_singles answer_section acc =
     (case re_search DOTALL single_region answer_section of
        None \<Rightarrow> Inr acc
      | Some single_match \<Rightarrow>
          (case group single_match 1 of
             None \<Rightarrow> Inl TypeError
           | Some single_text \<Rightarrow>
               (let matches = findall2 noflags single_pair single_text
                in if matches \<noteq> [] then store_singles matches acc else Inr acc)))"

definition extract_spaced_multis :: "ustring \<Rightarrow> nat \<times> answers \<Rightarrow> py_error + nat \<times> answers" where
  "extract_spaced_multis answer_section acc =
     (case re_search DOTALL multi_region answer_section of
        None \<Rightarrow> Inr acc
      | Some multi_match \<Rightarrow>
          (case group multi_match 1 of
             None \<Rightarrow> Inl TypeError
           | Some multi_text \<Rightarrow>
               (let matches = findall2 noflags multi_pair multi_text
                in if matches \<noteq> [] then store_multis (max_single_of (snd acc)) matches acc
                   else Inr acc)))"

definition try_extract_spaced_answers :: "ustring \<Rightarrow> answers \<Rightarrow> py_error + bool \<times> answers" where
  "try_extract_spaced_answers answer_section answers0 =
     (case extract_spaced_singles answer_section (0, answers0) of
        Inl e \<Rightarrow> Inl e
      | Inr acc1 \<Rightarrow>
          (case extract_spaced_multis answer_section acc1 of
             Inl e \<Rightarrow> Inl e
           | Inr (total_found, answers1) \<Rightarrow> Inr (total_found > 0, answers1)))"

subsection \<open>The answer region\<close>

text \<open>
  The start markers, in order: \<open>cankao_daan ji jiexi\<close>, \<open>cankao_daan\<close>,
  \<open>daan ji jiexi\<close>, \<open>daan jiexi\<close>, and \<open>yi_dun danxiang_xuanzeti\<close> followed on the
  same line by \<open>daan\<close>.
\<close>

definition answer_markers :: "regex list" where
  "answer_markers =
     [lits (cankao_daan @ ji @ jiexi),
      lits cankao_daan,
      lits (daan @ ji @ jiexi),
      lits (daan @ jiexi),
      seqs [lits (yi_dun @ danxiang_xuanzeti), lazy_star Dot, lits daan]]"

definition locate_answer_section :: "ustring \<Rightarrow> ustring" where
  "locate_answer_section text =
     (let answer_section =
            (case first_search noflags answer_markers text of
               None \<Rightarrow> []
             | Some m \<Rightarrow> drop (m_start m) text)
      in if answer_section = []
         then (let split_point = length text * 3 div 5 in drop split_point text)
         else answer_section)"

subsection \<open>The seven punctuation and label patterns\<close>

definition letters_commas :: regex where
  "letters_commas = plus1 (OneOf [CRange 0x41 0x45, CChar 0x2C, CChar 0xFF0C])"

definition letters_commas_blanks :: regex where
  "letters_commas_blanks = plus1 (OneOf [CRange 0x41 0x45, CChar 0x2C, CChar 0xFF0C, CSpace])"

definition cascade_patterns :: "regex list" where
  "cascade_patterns =
     [seqs [Grp 1 (plus1 digit), num_punct, star space, lits daan_bracketed, star space,
            Grp 2 letters_commas],
      seqs [Grp 1 (plus1 digit), num_punct, star space, lits daan, colon, star space,
            Grp 2 letters_commas],
      seqs [Grp 1 (plus1 digit), star space, lits cankao_daan, colon, star space,
            Grp 2 letters_commas_blanks],
      seqs [Lit 0x3010, Grp 1 (plus1 digit), Lit 0x3011, star space, lits daan, colon, star space,
            Grp 2 letters_commas],
      seqs [Grp 1 (plus1 digit), num_punct, star space, Lit 0x5B, lits daan, Lit 0x5D, star space,
            Grp 2 letters_commas],
      seqs [Alt Bol (Lit NL), Grp 1 (plus1 digit), plus1 space, Grp 2 (plus1 letter_AE),
            Ahead (Alt (seqs [plus1 space, plus1 digit, plus1 space, plus1 letter_AE])
                       (seqs [star space, Lit NL]))],
      seqs [Grp 1 (plus1 digit), num_punct, star space, Grp 2 (plus1 letter_AE), star space,
            Alt (Lit NL) (lits jiexi_bracketed)]]"

text \<open>Commas, blanks and line breaks are removed, then only the letters A to E kept.\<close>

definition clean_answer :: "ustring \<Rightarrow> ustring" where
  "clean_answer a =
     filter (\<lambda>c. c \<in> set (asc ''ABCDE''))
       (filter (\<lambda>c. c \<noteq> NL) (filter (\<lambda>c. c \<noteq> 0x20)
          (filter (\<lambda>c. c \<noteq> 0xFF0C) (filter (\<lambda>c. c \<noteq> 0x2C) a))))"

definition cascade_step :: "answers \<Rightarrow> rmatch \<Rightarrow> py_error + answers" where
  "cascade_step d m =
     (case group_int m 1 of
        Inl e \<Rightarrow> Inl e
      | Inr num \<Rightarrow>
          (case group_strip m 2 of
             Inl e \<Rightarrow> Inl e
           | Inr a \<Rightarrow>
               (let answer = clean_answer a
                in Inr (if answer \<noteq> [] then set_answer d num answer else d))))"

fun fold_err :: "('a \<Rightarrow> 'b \<Rightarrow> py_error + 'a) \<Rightarrow> 'b list \<Rightarrow> 'a \<Rightarrow> py_error + 'a" where
  "fold_err g [] acc = Inr acc"
| "fold_err g (x # xs) acc = (case g acc x of Inl e \<Rightarrow> Inl e | Inr acc' \<Rightarrow> fold_err g xs acc')"

definition apply_pattern :: "ustring \<Rightarrow> answers \<Rightarrow> regex \<Rightarrow> py_error + answers" where
  "apply_pattern answer_section d pattern =
     fold_err cascade_step (finditer MULTILINE pattern answer_section) d"

definition run_cascade :: "ustring \<Rightarrow> answers \<Rightarrow> py_error + answers" where
  "run_cascade answer_section d = fold_err (apply_pattern answer_section) cascade_patterns d"

subsection \<open>Analyses\<close>

text \<open>
  Two patterns are scanned, but only a match of a pattern with two groups is used: the
  number, \<open>jiexi_bracketed\<close>, and the text up to the next number marker or line end.
  The analysis is attached to a number that already has an entry, blanks collapsed, cut
  to 500 characters.
\<close>

definition analysis_patterns :: "regex list" where
  "analysis_patterns =
     [seqs [Grp 1 (plus1 digit), num_punct, star space, lits jiexi_bracketed,
            Grp 2 (lazy_star Dot), Ahead (Alt (seqs [plus1 digit, num_punct]) Eol)],
      seqs [lits jiexi_bracketed, Grp 1 (lazy_star Dot),
            Ahead (alts [seqs [plus1 digit, num_punct], lits daan_bracketed, Eol])]]"

primrec n_groups :: "regex \<Rightarrow> nat" where
  "n_groups Eps = 0"
| "n_groups (Lit c) = 0"
| "n_groups (OneOf is) = 0"
| "n_groups (NoneOf is) = 0"
| "n_groups Dot = 0"
| "n_groups (Seq a b) = n_groups a + n_groups b"
| "n_groups (Alt a b) = n_groups a + n_groups b"
| "n_groups (Rep g lo hi r) = n_groups r"
| "n_groups (Grp i r) = Suc (n_groups r)"
| "n_groups (Ahead r) = n_groups r"
| "n_groups (NAhead r) = n_groups r"
| "n_groups Bol = 0"
| "n_groups Eol = 0"
| "n_groups WordB = 0"

definition analysis_step :: "answers \<Rightarrow> rmatch \<Rightarrow> py_error + answers" where
  "analysis_step d m =
     (case group_int m 1 of
        Inl e \<Rightarrow> Inl e
      | Inr num \<Rightarrow>
          (case group_strip m 2 of
             Inl e \<Rightarrow> Inl e
           | Inr analysis \<Rightarrow>
               (case map_of d num of
                  None \<Rightarrow> Inr d
                | Some info \<Rightarrow>
                    Inr (AList.update num
                           (info\<lparr>a_analysis := Some (take 500 (re_sub noflags (plus1 space) [0x20] analysis))\<rparr>)
                           d))))"

definition apply_analysis_pattern :: "ustring \<Rightarrow> answers \<Rightarrow> regex \<Rightarrow> py_error + answers" where
  "apply_analysis_pattern answer_section d pattern =
     fold_err (\<lambda>d' m. if n_groups pattern = 2 then analysis_step d' m else Inr d')
       (finditer MULTILINE_DOTALL pattern answer_section) d"

subsection \<open>\<open>_extract_answers_section\<close>\<close>

definition extract_answers_section :: "ustring \<Rightarrow> py_error + answers" where
  "extract_answers_section text =
     (let answer_section = locate_answer_section text
      in case try_extract_spaced_answers answer_section [] of
           Inl e \<Rightarrow> Inl e
         | Inr (True, d) \<Rightarrow> Inr d
         | Inr (False, d) \<Rightarrow>
             (case run_cascade answer_section d of
                Inl e \<Rightarrow> Inl e
              | Inr d' \<Rightarrow> fold_err (apply_analysis_pattern answer_section) analysis_patterns d'))"


section \<open>The case-study parser (\<open>case_parser.py\<close>)\<close>




subsection \<open>Background\<close>










subsection \<open>Sub-questions\<close>







subsection \<open>One case\<close>



subsection \<open>Scores\<close>





subsection \<open>Case markers\<close>

text \<open>
  Four marker formats are tried in turn.  The first is \<open>anli\<close> and a numeral, with
  optional parentheses; of its matches those are kept whose next 20 characters start
  with blanks and a line break, or with \<open>beijing\<close> - unless none is, then all are kept.
\<close>

definition case_pattern1 :: regex where
  "case_pattern1 = seqs [lits anli, opt lparen, Grp 1 cn_numeral, opt rparen]"

definition marker_lookahead :: regex where
  "marker_lookahead = Alt (seqs [star space, Lit NL]) (lits beijing)"

definition passes_lookahead :: "ustring \<Rightarrow> rmatch \<Rightarrow> bool" where
  "passes_lookahead case_section m =
     (re_match noflags marker_lookahead (slice case_section (m_end m) (m_end m + 20)) \<noteq> None)"

definition case_pattern2 :: regex where
  "case_pattern2 =
     seqs [Lit NL, lparen, Grp 1 cn_numeral, rparen, star space, Lit NL,
           Alt (lits beijing_ziliao) (lits [wen, ti])]"

definition case_pattern3 :: regex where
  "case_pattern3 = seqs [Lit 0x3010, lits anli, Grp 1 cn_numeral, Lit 0x3011]"

definition case_pattern4 :: regex where
  "case_pattern4 =
     seqs [Lit NL, lparen, Grp 1 cn_numeral, rparen, star space, Lit NL,
           NAhead (OneOf [CChar 0x3001, CChar 0xFF0C])]"

definition select_case_matches :: "ustring \<Rightarrow> rmatch list" where
  "select_case_matches case_section =
     (let case_matches1 = finditer noflags case_pattern1 case_section;
          filtered_matches = filter (passes_lookahead case_section) case_matches1;
          case_matches = (if filtered_matches \<noteq> [] then filtered_matches else case_matches1);
          case_matches = (if case_matches = [] then finditer noflags case_pattern2 case_section
                          else case_matches);
          case_matches = (if case_matches = [] then finditer noflags case_pattern3 case_section
                          else case_matches);
          case_matches = (if case_matches = [] then finditer noflags case_pattern4 case_section
                          else case_matches)
      in case_matches)"

subsection \<open>\<open>_parse_case_studies\<close>\<close>

definition case_section_header :: regex where
  "case_section_header =
     seqs [lits san_dun, star space, opt (lits shiwu_caozuo_he), lits anli, lazy_star Dot, Lit ti,
           lazy_star Dot, Ahead (Alt (lits cankao_daan) Eol)]"

definition case_answer_start :: regex where
  "case_answer_start =
     alts [lits cankao_daan, seqs [lits daan, lazy_star Dot, lits jiexi], lits daan_bracketed]"

definition isolate_case_section :: "ustring \<Rightarrow> ustring option" where
  "isolate_case_section text =
     (case re_search DOTALL case_section_header text of
        None \<Rightarrow> None
      | Some case_section_match \<Rightarrow>
          (let case_section = slice text (m_start case_section_match) (m_end case_section_match)
           in case re_search noflags case_answer_start case_section of
                None \<Rightarrow> Some case_section
              | Some answer_start \<Rightarrow> Some (take (m_start answer_start) case_section)))"



section \<open>Un-punctuated documents\<close>

text \<open>
  The documents the fallback recognizer is for.  An item is a number and a body; the
  number is a non-empty run of decimal digits, the body starts with a CJK ideograph
  (U+4E00 to U+9FA5) and has no line break directly followed by a digit, so that no
  further line of it begins like an item.  The document is the items one after the other,
  each later item on a new line.  \<open>recovered_parts\<close> is what a split that recovers
  every item looks like: the empty text before the first number, then each number and
  its body.
\<close>

definition is_cjk :: "uchar \<Rightarrow> bool" where
  "is_cjk c = (0x4E00 \<le> c \<and> c \<le> 0x9FA5)"

fun digit_after_nl :: "ustring \<Rightarrow> bool" where
  "digit_after_nl (x # y # zs) = (if x = NL \<and> is_digit y then True else digit_after_nl (y # zs))"
| "digit_after_nl [x] = False"
| "digit_after_nl [] = False"

definition unpunctuated_item :: "ustring \<times> ustring \<Rightarrow> bool" where
  "unpunctuated_item it =
     (fst it \<noteq> [] \<and> list_all is_digit (fst it) \<and> snd it \<noteq> [] \<and> is_cjk (hd (snd it))
      \<and> \<not> digit_after_nl (snd it))"

definition later_items :: "(ustring \<times> ustring) list \<Rightarrow> ustring" where
  "later_items its = concat (map (\<lambda>it. NL # fst it @ snd it) its)"

definition unpunctuated_doc :: "(ustring \<times> ustring) list \<Rightarrow> ustring" where
  "unpunctuated_doc its =
     (case its of [] \<Rightarrow> [] | it # others \<Rightarrow> fst it @ snd it @ later_items others)"

definition recovered_parts :: "(ustring \<times> ustring) list \<Rightarrow> ustring option list" where
  "recovered_parts its = Some [] # concat (map (\<lambda>it. [Some (fst it), Some (snd it)]) its)"

text \<open>
  For the proofs: the state after the characters \<open>xs\<close> have been consumed, the state
  after a number group has matched the first \<open>j\<close> digits of \<open>d\<close>, and the
  matches of the fallback recognizer on the later items of a document, the first of
  them starting at the line break at \<open>p\<close>.
\<close>

definition consume :: "ustring \<Rightarrow> mstate \<Rightarrow> mstate" where
  "consume xs s =
     s\<lparr>st_pos := st_pos s + length xs,
       st_prev := (if xs = [] then st_prev s else Some (last xs)),
       st_rest := drop (length xs) (st_rest s)\<rparr>"

definition after_digits :: "nat \<Rightarrow> ustring \<Rightarrow> mstate \<Rightarrow> mstate" where
  "after_digits j d s = (consume (take j d) s)\<lparr>st_caps := (1, take j d) # st_caps s\<rparr>"

fun matches_from :: "nat \<Rightarrow> (ustring \<times> ustring) list \<Rightarrow> rmatch list" where
  "matches_from p [] = []"
| "matches_from p (it # its) =
     \<lparr>m_start = p, m_end = p + 1 + length (fst it), m_caps = [(1, fst it)]\<rparr>
       # matches_from (p + 1 + length (fst it) + length (snd it)) its"

section \<open>Concrete documents\<close>

text \<open>
  The scenario of the specification: two items, each with a stem, the options A and B
  and an inline answer (\<open>daan\<close> and an ASCII colon); and the two segments its
  punctuated split produces.
\<close>

definition scenario_text :: ustring where
  "scenario_text = asc ''1.What is X?\<newline>A. a\<newline>B. b\<newline>'' @ [0x7B54, 0x6848] @ asc '':B\<newline>2.What is Y?\<newline>A. c\<newline>B. d\<newline>'' @ [0x7B54, 0x6848] @ asc '':A''"

definition scenario_seg1 :: ustring where
  "scenario_seg1 = asc ''What is X?\<newline>A. a\<newline>B. b\<newline>'' @ [0x7B54, 0x6848] @ asc '':B''"

definition scenario_seg2 :: ustring where
  "scenario_seg2 = asc ''What is Y?\<newline>A. c\<newline>B. d\<newline>'' @ [0x7B54, 0x6848] @ asc '':A''"

definition scenario_q1 :: exam_question where
  "scenario_q1 =
     \<lparr>q_number = 1, q_type = Single, q_question = asc ''What is X?'',
      q_options = [(Some (asc ''A''), asc ''a''), (Some (asc ''B''), asc ''b'')],
      q_answer = Some (asc ''B''), q_analysis = None,
      q_knowledge_points = [], q_difficulty = None\<rparr>"

definition scenario_q2 :: exam_question where
  "scenario_q2 =
     \<lparr>q_number = 2, q_type = Single, q_question = asc ''What is Y?'',
      q_options = [(Some (asc ''A''), asc ''c''), (Some (asc ''B''), asc ''d'')],
      q_answer = Some (asc ''A''), q_analysis = None,
      q_knowledge_points = [], q_difficulty = None\<rparr>"

text \<open>Five punctuated items, and two.\<close>

definition five_items :: ustring where
  "five_items = asc ''1.a\<newline>2.b\<newline>3.c\<newline>4.d\<newline>5.e''"

definition two_items :: ustring where
  "two_items = asc ''1.a\<newline>2.b''"

text \<open>
  Three un-punctuated items: on each line a number directly followed by two ideographs
  (U+6839 U+636E, U+4F9D U+636E, U+6309 U+7167).
\<close>

definition unpunctuated_three :: ustring where
  "unpunctuated_three = asc ''1'' @ [0x6839, 0x636E] @ asc ''\<newline>2'' @ [0x4F9D, 0x636E] @ asc ''\<newline>3'' @ [0x6309, 0x7167]"

definition unpunctuated_three_items :: "(ustring \<times> ustring) list" where
  "unpunctuated_three_items =
     [(asc ''1'', [0x6839, 0x636E]), (asc ''2'', [0x4F9D, 0x636E]), (asc ''3'', [0x6309, 0x7167])]"

text \<open>
  Three section headers declaring 2 single-choice, 3 multi-choice and 1 case item, each
  header a section numeral, the short type label, U+5171, the count and \<open>ti\<close>.
\<close>

definition three_headers :: ustring where
  "three_headers = [0x4E00, 0x3001, 0x5355, 0x9009, 0x9898, 0x5171] @ asc ''2'' @ [0x9898] @ asc ''\<newline>'' @ [0x4E8C, 0x3001, 0x591A, 0x9009, 0x9898, 0x5171] @ asc ''3'' @ [0x9898] @ asc ''\<newline>'' @ [0x4E09, 0x3001, 0x6848, 0x4F8B, 0x9898, 0x5171] @ asc ''1'' @ [0x9898]"

definition three_headers_m1 :: rmatch where
  "three_headers_m1 = \<lparr>m_start = 0, m_end = 8, m_caps = [(1, asc ''2'')]\<rparr>"

definition three_headers_m2 :: rmatch where
  "three_headers_m2 = \<lparr>m_start = 9, m_end = 17, m_caps = [(1, asc ''3'')]\<rparr>"

definition three_headers_m3 :: rmatch where
  "three_headers_m3 = \<lparr>m_start = 18, m_end = 26, m_caps = [(1, asc ''1'')]\<rparr>"

text \<open>A text without any answer marker.\<close>

definition abcde :: ustring where
  "abcde = asc ''abcde''"

text \<open>
  Two case sections, each opened by the section header (\<open>san_dun\<close>, \<open>anliti\<close>) on a
  line of its own.  In the first, "case one" (\<open>anli\<close>, U+4E00) stands before a line
  break, and "case two" (\<open>anli\<close>, U+4E8C) in running text before U+7684.  In the
  second, the only "case one" stands in running text (before U+67D0 U+5DE5 U+7A0B,
  "a certain project").
\<close>

definition mixed_section :: ustring where
  "mixed_section = [0x4E09, 0x3001, 0x6848, 0x4F8B, 0x9898] @ asc ''\<newline>'' @ [0x6848, 0x4F8B, 0x4E00] @ asc ''\<newline>'' @ [0x80CC, 0x666F, 0x7532, 0x6848, 0x4F8B, 0x4E8C, 0x7684]"

definition mixed_m1 :: rmatch where
  "mixed_m1 = \<lparr>m_start = 6, m_end = 9, m_caps = [(1, [0x4E00])]\<rparr>"

definition mixed_m2 :: rmatch where
  "mixed_m2 = \<lparr>m_start = 13, m_end = 16, m_caps = [(1, [0x4E8C])]\<rparr>"

definition lone_section :: ustring where
  "lone_section = [0x4E09, 0x3001, 0x6848, 0x4F8B, 0x9898] @ asc ''\<newline>'' @ [0x6848, 0x4F8B, 0x4E00, 0x67D0, 0x5DE5, 0x7A0B]"

definition lone_m :: rmatch where
  "lone_m = \<lparr>m_start = 6, m_end = 9, m_caps = [(1, [0x4E00])]\<rparr>"





section \<open>Properties of the segmentation\<close>

lemma length_interleave: "length (interleave t p rs) = 2 * length rs + 1"
  by (induction rs arbitrary: p) simp_all

lemma length_re_split1: "length (re_split1 f r t) = 2 * length (finditer f r t) + 1"
  by (simp add: re_split1_def length_interleave)

subsection \<open>The two recognizers on un-punctuated documents\<close>

text \<open>
  A number group followed by a character that is no digit matches every non-empty
  prefix of the digits, the longest first.  At the start of an item the fallback
  recognizer therefore matches the whole number (the lookahead sees the ideograph only
  after the last digit), and the primary recognizer does not match; inside numbers and
  bodies neither matches.
\<close>

lemma cjk_not_digit: "is_cjk c \<Longrightarrow> \<not> is_digit c"
  by (simp add: is_cjk_def is_digit_def unicode_digit_ranges_def)

lemma digit_not_NL: "is_digit c \<Longrightarrow> c \<noteq> NL"
proof
  assume "is_digit c" "c = NL"
  moreover have "\<not> is_digit NL" by code_simp
  ultimately show False by simp
qed

lemma digit_not_punct: "is_digit c \<Longrightarrow> \<not> in_class c [CChar 0x2E, CChar 0x3001, CChar 0xFF0E]"
proof -
  have "\<not> is_digit 0x2E" "\<not> is_digit 0x3001" "\<not> is_digit 0xFF0E" by code_simp+
  then show "is_digit c \<Longrightarrow> ?thesis" by auto
qed

lemma cjk_not_punct: "is_cjk c \<Longrightarrow> \<not> in_class c [CChar 0x2E, CChar 0x3001, CChar 0xFF0E]"
  by (auto simp: is_cjk_def)

lemma consume_Nil [simp]: "consume [] s = s"
  by (simp add: consume_def)

lemma consume_Cons:
  "st_rest s = c # r \<Longrightarrow>
   consume (c # xs) s = consume xs (s\<lparr>st_pos := Suc (st_pos s), st_prev := Some c, st_rest := r\<rparr>)"
  by (simp add: consume_def)

lemma step1_hit:
  "st_rest s = c # r \<Longrightarrow> P c \<Longrightarrow>
   step1 P s = [s\<lparr>st_pos := Suc (st_pos s), st_prev := Some c, st_rest := r\<rparr>]"
  by (simp add: step1_def)

lemma step1_miss: "st_rest s = [] \<or> \<not> P (hd (st_rest s)) \<Longrightarrow> step1 P s = []"
  by (cases "st_rest s") (auto simp: step1_def)

lemma rep_run:
  "st_rest s = d @ ys \<Longrightarrow> list_all P d \<Longrightarrow> ys = [] \<or> \<not> P (hd ys) \<Longrightarrow> length d < n \<Longrightarrow>
   rep (step1 P) True lo None n s = map (\<lambda>j. consume (take j d) s) (rev [lo..<Suc (length d)])"
proof (induction d arbitrary: s lo n)
  case Nil
  then obtain n' where n: "n = Suc n'" by (cases n) auto
  have miss: "step1 P s = []" using Nil by (intro step1_miss) auto
  show ?case by (cases "lo = 0") (simp_all add: n miss)
next
  case (Cons c d)
  then obtain n' where n: "n = Suc n'" and len: "length d < n'" by (cases n) auto
  let ?s1 = "s\<lparr>st_pos := Suc (st_pos s), st_prev := Some c, st_rest := d @ ys\<rparr>"
  have hit: "step1 P s = [?s1]" using Cons.prems by (intro step1_hit) auto
  have ih: "rep (step1 P) True (lo - 1) None n' ?s1
              = map (\<lambda>j. consume (take j d) ?s1) (rev [lo - 1..<Suc (length d)])"
    using Cons.prems len by (intro Cons.IH) auto
  have shift: "\<And>j. consume (take j d) ?s1 = consume (take (Suc j) (c # d)) s"
    using Cons.prems(1) by (simp add: consume_Cons)
  show ?case
  proof (cases "lo = 0")
    case True
    have "[0..<Suc (Suc (length d))] = 0 # [Suc 0..<Suc (Suc (length d))]"
      by (rule upt_conv_Cons) simp
    also have "[Suc 0..<Suc (Suc (length d))] = map Suc [0..<Suc (length d)]"
      by (simp only: map_Suc_upt)
    finally have "[0..<Suc (Suc (length d))] = 0 # map Suc [0..<Suc (length d)]" .
    moreover have ih0: "rep (step1 P) True 0 None n' ?s1
              = map (\<lambda>j. consume (take j d) ?s1) (rev [0..<Suc (length d)])"
      using ih True by simp
    moreover have "(\<lambda>j. consume (take j (c # d)) s) \<circ> Suc = (\<lambda>j. consume (take j d) ?s1)"
      by (rule ext) (simp add: shift)
    ultimately show ?thesis using True
      by (simp add: n hit rev_map del: upt_Suc)
  next
    case False
    then obtain l where l: "lo = Suc l" by (cases lo) auto
    have "[Suc l..<Suc (Suc (length d))] = map Suc [l..<Suc (length d)]"
      by (simp add: map_Suc_upt del: upt_Suc)
    moreover have "rep (step1 P) True l None n' ?s1
              = map (\<lambda>j. consume (take j d) ?s1) (rev [l..<Suc (length d)])"
      using ih l by simp
    moreover have "(\<lambda>j. consume (take j (c # d)) s) \<circ> Suc = (\<lambda>j. consume (take j d) ?s1)"
      by (rule ext) (simp add: shift)
    ultimately show ?thesis
      by (simp add: n hit l rev_map del: upt_Suc)
  qed
qed

lemma ms_digit_eq: "ms f digit = step1 is_digit"
  by (rule ext) simp

lemma ms_number_group:
  assumes "st_rest s = d @ ys" and "list_all is_digit d" and "ys = [] \<or> \<not> is_digit (hd ys)"
  shows "ms f (Grp 1 (plus1 digit)) s = map (\<lambda>j. after_digits j d s) (rev [1..<Suc (length d)])"
proof -
  have run: "rep (step1 is_digit) True 1 None (1 + Suc (length (st_rest s))) s
               = map (\<lambda>j. consume (take j d) s) (rev [1..<Suc (length d)])"
    using assms by (intro rep_run) auto
  have "ms f (Grp 1 (plus1 digit)) s
          = map (\<lambda>s'. s'\<lparr>st_caps := (1, take (st_pos s' - st_pos s) (st_rest s)) # st_caps s'\<rparr>)
              (map (\<lambda>j. consume (take j d) s) (rev [1..<Suc (length d)]))"
    using run by (simp add: ms_digit_eq del: rep.simps)
  also have "\<dots> = map (\<lambda>j. after_digits j d s) (rev [1..<Suc (length d)])"
    unfolding map_map
  proof (rule map_cong[OF refl])
    fix j assume "j \<in> set (rev [1..<Suc (length d)])"
    then have "j \<le> length d" by auto
    then show "((\<lambda>s'. s'\<lparr>st_caps := (1, take (st_pos s' - st_pos s) (st_rest s)) # st_caps s'\<rparr>)
                 \<circ> (\<lambda>j. consume (take j d) s)) j = after_digits j d s"
      using assms(1) by (simp add: after_digits_def consume_def min_def)
  qed
  finally show ?thesis .
qed

lemma after_digits_rest:
  "st_rest s = d @ ys \<Longrightarrow> j \<le> length d \<Longrightarrow> st_rest (after_digits j d s) = drop j d @ ys"
  by (simp add: after_digits_def consume_def min_def)

lemma after_digits_next:
  assumes "st_rest s = d @ x # ys" and "j \<le> length d"
  shows "st_rest (after_digits j d s) \<noteq> []"
    and "hd (st_rest (after_digits j d s)) = (if j = length d then x else d ! j)"
proof -
  have r: "st_rest (after_digits j d s) = drop j d @ x # ys"
    using assms by (rule after_digits_rest)
  show "st_rest (after_digits j d s) \<noteq> []" using r by simp
  show "hd (st_rest (after_digits j d s)) = (if j = length d then x else d ! j)"
    using r assms(2) by (cases "j = length d") (simp_all add: hd_append hd_drop_conv_nth)
qed

lemma fallback_tail:
  assumes "st_rest s = d @ x # ys" and "list_all is_digit d" and "is_cjk x" and "j \<le> length d"
  shows "ms noflags (Seq (Ahead (OneOf [CRange 0x4E00 0x9FA5])) Eps) (after_digits j d s)
           = (if j = length d then [after_digits j d s] else [])"
proof -
  let ?s = "after_digits j d s"
  obtain h r where hr: "st_rest ?s = h # r" and h: "h = (if j = length d then x else d ! j)"
    using after_digits_next[OF assms(1,4)] by (cases "st_rest ?s") auto
  show ?thesis
  proof (cases "j = length d")
    case True
    then have "in_class h [CRange 0x4E00 0x9FA5]" using h assms(3) by (simp add: is_cjk_def)
    then show ?thesis using True hr by (simp add: step1_def)
  next
    case False
    then have "is_digit h" using h assms(2,4) by (simp add: list_all_length)
    then have "\<not> is_cjk h" using cjk_not_digit by blast
    then have "\<not> in_class h [CRange 0x4E00 0x9FA5]" by (simp add: is_cjk_def)
    then show ?thesis using False hr by (simp add: step1_def)
  qed
qed

lemma primary_tail:
  assumes "st_rest s = d @ x # ys" and "list_all is_digit d" and "is_cjk x" and "j \<le> length d"
  shows "ms noflags (Seq (OneOf [CChar 0x2E, CChar 0x3001, CChar 0xFF0E]) R) (after_digits j d s) = []"
proof -
  let ?s = "after_digits j d s"
  obtain h r where hr: "st_rest ?s = h # r" and h: "h = (if j = length d then x else d ! j)"
    using after_digits_next[OF assms(1,4)] by (cases "st_rest ?s") auto
  have "is_digit h \<or> is_cjk h" using h assms(2,3,4) by (auto simp: list_all_length)
  then have "\<not> in_class h [CChar 0x2E, CChar 0x3001, CChar 0xFF0E]"
    using digit_not_punct cjk_not_punct by blast
  then have "step1 (\<lambda>c. in_class c [CChar 0x2E, CChar 0x3001, CChar 0xFF0E]) ?s = []"
    using hr by (simp add: step1_def)
  then show ?thesis by simp
qed

lemma concat_all_empty: "(\<And>x. x \<in> set xs \<Longrightarrow> g x = []) \<Longrightarrow> concat (map g xs) = []"
  by (induction xs) auto

lemma concat_top_only:
  assumes "1 \<le> n" and "g n = [y]" and "\<And>j. 1 \<le> j \<Longrightarrow> j < n \<Longrightarrow> g j = []"
  shows "concat (map g (rev [1..<Suc n])) = [y]"
proof -
  have "rev [1..<Suc n] = n # rev [1..<n]" using assms(1) by simp
  moreover have "concat (map g (rev [1..<n])) = []"
    by (rule concat_all_empty) (use assms(3) in auto)
  ultimately show ?thesis using assms(2) by simp
qed

lemma line_start_first:
  assumes "d \<noteq> []" and "list_all is_digit d"
  shows "ms noflags (Seq (Alt Bol (Lit NL)) Q) (start_state p None (d @ ys))
           = ms noflags Q (start_state p None (d @ ys))"
proof -
  obtain c r where d: "d = c # r" using assms(1) by (cases d) auto
  then have "c \<noteq> NL" using assms(2) digit_not_NL by auto
  then show ?thesis
    by (simp add: d at_bol_def start_state_def step1_def)
qed

lemma line_start_later:
  "ms noflags (Seq (Alt Bol (Lit NL)) Q) (start_state p (Some c) (NL # r))
     = ms noflags Q (start_state (Suc p) (Some NL) r)"
  by (simp add: at_bol_def start_state_def step1_def noflags_def)

lemma no_line_start:
  "r = [] \<or> hd r \<noteq> NL \<Longrightarrow> ms noflags (Seq (Alt Bol (Lit NL)) Q) (start_state p (Some c) r) = []"
  by (cases r) (auto simp: at_bol_def start_state_def step1_def noflags_def)

lemma line_without_number:
  assumes "r = [] \<or> \<not> is_digit (hd r)"
  shows "ms noflags (Seq (Alt Bol (Lit NL)) (Seq (Grp 1 (plus1 digit)) R)) (start_state p (Some c) (NL # r)) = []"
proof -
  have "ms noflags (Grp 1 (plus1 digit)) (start_state (Suc p) (Some NL) r)
          = map (\<lambda>j. after_digits j [] (start_state (Suc p) (Some NL) r)) (rev [1..<Suc (length ([]::ustring))])"
    using assms by (intro ms_number_group) (auto simp: start_state_def)
  then have "ms noflags (Grp 1 (plus1 digit)) (start_state (Suc p) (Some NL) r) = []" by simp
  then show ?thesis unfolding line_start_later by (simp del: ms.simps(8,9))
qed

lemma number_then_cjk:
  assumes "d \<noteq> []" and "list_all is_digit d" and "is_cjk x"
  shows "ms noflags (Seq (Grp 1 (plus1 digit)) (Seq (Ahead (OneOf [CRange 0x4E00 0x9FA5])) Eps))
            (start_state q c (d @ x # ys))
           = [after_digits (length d) d (start_state q c (d @ x # ys))]"
proof -
  let ?s = "start_state q c (d @ x # ys)"
  let ?R = "Seq (Ahead (OneOf [CRange 0x4E00 0x9FA5])) Eps"
  have rest: "st_rest ?s = d @ x # ys" by (simp add: start_state_def)
  have grp: "ms noflags (Grp 1 (plus1 digit)) ?s = map (\<lambda>j. after_digits j d ?s) (rev [1..<Suc (length d)])"
    using rest assms(2,3) cjk_not_digit by (intro ms_number_group) auto
  have "concat (map (\<lambda>j. ms noflags ?R (after_digits j d ?s)) (rev [1..<Suc (length d)]))
          = [after_digits (length d) d ?s]"
  proof (rule concat_top_only)
    show "1 \<le> length d" using assms(1) by (cases d) auto
    show "ms noflags ?R (after_digits (length d) d ?s) = [after_digits (length d) d ?s]"
      using fallback_tail[OF rest assms(2,3), of "length d"] by simp
    show "\<And>j. 1 \<le> j \<Longrightarrow> j < length d \<Longrightarrow> ms noflags ?R (after_digits j d ?s) = []"
      using fallback_tail[OF rest assms(2,3)] by simp
  qed
  then show ?thesis
    unfolding ms.simps(6)[of noflags "Grp 1 (plus1 digit)"] grp map_map comp_def .
qed

lemma number_then_cjk_primary:
  assumes "list_all is_digit d" and "is_cjk x"
  shows "ms noflags (Seq (Grp 1 (plus1 digit)) (Seq (OneOf [CChar 0x2E, CChar 0x3001, CChar 0xFF0E]) R))
            (start_state q c (d @ x # ys)) = []"
proof -
  let ?s = "start_state q c (d @ x # ys)"
  let ?R = "Seq (OneOf [CChar 0x2E, CChar 0x3001, CChar 0xFF0E]) R"
  have rest: "st_rest ?s = d @ x # ys" by (simp add: start_state_def)
  have grp: "ms noflags (Grp 1 (plus1 digit)) ?s = map (\<lambda>j. after_digits j d ?s) (rev [1..<Suc (length d)])"
    using rest assms cjk_not_digit by (intro ms_number_group) auto
  have "concat (map (\<lambda>j. ms noflags ?R (after_digits j d ?s)) (rev [1..<Suc (length d)])) = []"
  proof (rule concat_all_empty)
    fix j assume "j \<in> set (rev [1..<Suc (length d)])"
    then have "j \<le> length d" by auto
    then show "ms noflags ?R (after_digits j d ?s) = []"
      using primary_tail[OF rest assms] by simp
  qed
  then show ?thesis
    unfolding ms.simps(6)[of noflags "Grp 1 (plus1 digit)"] grp map_map comp_def .
qed

lemma dan_notNL: "x \<noteq> NL \<Longrightarrow> digit_after_nl (x # w) = digit_after_nl w"
  by (cases w) simp_all

lemma dan_tail: "\<not> digit_after_nl (x # w) \<Longrightarrow> \<not> digit_after_nl w"
  by (cases w) (simp_all split: if_splits)

lemma dan_head: "\<not> digit_after_nl (NL # w) \<Longrightarrow> w = [] \<or> \<not> is_digit (hd w)"
  by (cases w) (simp_all split: if_splits)

lemma dan_append_quiet: "NL \<notin> set d \<Longrightarrow> digit_after_nl (d @ w) = digit_after_nl w"
  by (induction d) (simp_all add: dan_notNL)

lemma dan_snoc: "\<not> is_digit z \<Longrightarrow> digit_after_nl (w @ [z]) = digit_after_nl w"
  by (induction w rule: digit_after_nl.induct) simp_all

lemma take1_later_items: "take 1 (later_items its) = (if its = [] then [] else [NL])"
  by (cases its) (simp_all add: later_items_def)

lemma later_items_Cons: "later_items (it # its) = NL # fst it @ snd it @ later_items its"
  by (simp add: later_items_def)

lemma later_items_Nil: "later_items [] = []"
  by (simp add: later_items_def)

lemma body_then_later_quiet:
  "\<not> digit_after_nl b \<Longrightarrow> \<not> digit_after_nl (b @ take 1 (later_items its))"
proof -
  have "\<not> is_digit NL" by code_simp
  then show "\<not> digit_after_nl b \<Longrightarrow> ?thesis"
    by (cases its) (simp_all add: later_items_def dan_snoc)
qed

lemma scan_skip:
  "length xs = k \<Longrightarrow>
   scan f r k p c (xs @ ys) = scan f r 0 (p + k) (if xs = [] then c else Some (last xs)) ys"
proof (induction xs arbitrary: k p c)
  case Nil
  then show ?case by simp
next
  case (Cons x xs)
  then obtain k' where k: "k = Suc k'" "length xs = k'" by (cases k) auto
  have "scan f r k p c ((x # xs) @ ys) = scan f r k' (Suc p) (Some x) (xs @ ys)"
    by (simp add: k)
  also have "\<dots> = scan f r 0 (Suc p + k') (if xs = [] then Some x else Some (last xs)) ys"
    using Cons.IH[OF k(2)] by simp
  finally show ?case by (simp add: k)
qed

lemma scan_quiet:
  "\<not> digit_after_nl (b @ take 1 ys) \<Longrightarrow>
   scan noflags (Seq (Alt Bol (Lit NL)) (Seq (Grp 1 (plus1 digit)) R)) 0 p (Some c) (b @ ys)
     = scan noflags (Seq (Alt Bol (Lit NL)) (Seq (Grp 1 (plus1 digit)) R)) 0 (p + length b)
         (Some (if b = [] then c else last b)) ys"
proof (induction b arbitrary: p c)
  case Nil
  then show ?case by simp
next
  case (Cons x b)
  let ?r = "Seq (Alt Bol (Lit NL)) (Seq (Grp 1 (plus1 digit)) R)"
  have none: "ms noflags ?r (start_state p (Some c) (x # b @ ys)) = []"
  proof (cases "x = NL")
    case False
    then show ?thesis by (intro no_line_start) simp
  next
    case True
    have "b @ take 1 ys = [] \<or> \<not> is_digit (hd (b @ take 1 ys))"
      using Cons.prems True dan_head[of "b @ take 1 ys"] by simp
    then have "b @ ys = [] \<or> \<not> is_digit (hd (b @ ys))"
      by (cases b; cases ys) auto
    then show ?thesis unfolding True by (rule line_without_number)
  qed
  have quiet: "\<not> digit_after_nl (b @ take 1 ys)"
    using Cons.prems dan_tail[of x "b @ take 1 ys"] by simp
  have "scan noflags ?r 0 p (Some c) ((x # b) @ ys) = scan noflags ?r 0 (Suc p) (Some x) (b @ ys)"
    using none by (simp del: ms.simps)
  also have "\<dots> = scan noflags ?r 0 (Suc p + length b) (Some (if b = [] then x else last b)) ys"
    by (rule Cons.IH[OF quiet])
  finally show ?case by simp
qed

lemma fallback_shape:
  "fallback_pattern
     = Seq (Alt Bol (Lit NL)) (Seq (Grp 1 (plus1 digit)) (Seq (Ahead (OneOf [CRange 0x4E00 0x9FA5])) Eps))"
  by (simp add: fallback_pattern_def seqs_def)

lemma primary_shape:
  "question_pattern
     = Seq (Alt Bol (Lit NL)) (Seq (Grp 1 (plus1 digit))
         (Seq (OneOf [CChar 0x2E, CChar 0x3001, CChar 0xFF0E]) (Seq (star space) Eps)))"
  by (simp add: question_pattern_def seqs_def num_punct_def)

lemma digits_no_NL: "list_all is_digit d \<Longrightarrow> NL \<notin> set d"
  using digit_not_NL by (auto simp: list_all_iff)

lemma scan_later_fallback:
  "list_all unpunctuated_item its \<Longrightarrow>
   scan noflags fallback_pattern 0 p (Some c) (later_items its) = matches_from p its"
proof (induction its arbitrary: p c)
  case Nil
  have "ms noflags fallback_pattern (start_state p (Some c) []) = []"
    unfolding fallback_shape by (rule no_line_start) simp
  then show ?case by (simp add: later_items_Nil del: ms.simps)
next
  case (Cons it its)
  let ?d = "fst it" and ?b = "snd it"
  from Cons.prems have item: "unpunctuated_item it" and rest_ok: "list_all unpunctuated_item its"
    by simp_all
  from item have ok: "?d \<noteq> []" "list_all is_digit ?d" "?b \<noteq> []" "is_cjk (hd ?b)"
    "\<not> digit_after_nl ?b"
    by (simp_all add: unpunctuated_item_def)
  obtain x b' where b: "?b = x # b'" using ok(3) by (cases ?b) auto
  then have x: "is_cjk x" using ok(4) by simp
  let ?tail = "later_items its"
  let ?s1 = "start_state (Suc p) (Some NL) (?d @ x # b' @ ?tail)"
  let ?s' = "after_digits (length ?d) ?d ?s1"
  have hit: "ms noflags fallback_pattern (start_state p (Some c) (NL # ?d @ x # b' @ ?tail)) = [?s']"
    unfolding fallback_shape line_start_later by (rule number_then_cjk[OF ok(1,2) x])
  have m: "mk_match p ?s' = \<lparr>m_start = p, m_end = p + 1 + length ?d, m_caps = [(1, ?d)]\<rparr>"
    by (simp add: mk_match_def after_digits_def consume_def start_state_def)
  have pos: "st_pos ?s' - p - 1 = length ?d"
    by (simp add: after_digits_def consume_def start_state_def)
  have "scan noflags fallback_pattern 0 p (Some c) (later_items (it # its))
          = mk_match p ?s' # scan noflags fallback_pattern (length ?d) (Suc p) (Some NL) (?d @ ?b @ ?tail)"
    using hit pos by (simp add: later_items_Cons b del: ms.simps)
  also have "scan noflags fallback_pattern (length ?d) (Suc p) (Some NL) (?d @ ?b @ ?tail)
          = scan noflags fallback_pattern 0 (Suc p + length ?d) (Some (last ?d)) (?b @ ?tail)"
    using scan_skip[of ?d "length ?d" noflags fallback_pattern "Suc p" "Some NL" "?b @ ?tail"] ok(1)
    by simp
  also have "\<dots> = scan noflags fallback_pattern 0 (Suc p + length ?d + length ?b) (Some (last ?b)) ?tail"
    using scan_quiet[OF body_then_later_quiet[OF ok(5), of its],
        where p = "Suc p + length ?d" and c = "last ?d"
          and R = "Seq (Ahead (OneOf [CRange 0x4E00 0x9FA5])) Eps"] ok(3)
    unfolding fallback_shape by simp
  also have "\<dots> = matches_from (Suc p + length ?d + length ?b) its"
    by (rule Cons.IH[OF rest_ok])
  finally show ?case by (simp add: m)
qed

lemma scan_later_primary:
  "list_all unpunctuated_item its \<Longrightarrow>
   scan noflags question_pattern 0 p (Some c) (later_items its) = []"
proof (induction its arbitrary: p c)
  case Nil
  have "ms noflags question_pattern (start_state p (Some c) []) = []"
    unfolding primary_shape by (rule no_line_start) simp
  then show ?case by (simp add: later_items_Nil del: ms.simps)
next
  case (Cons it its)
  let ?d = "fst it" and ?b = "snd it"
  from Cons.prems have item: "unpunctuated_item it" and rest_ok: "list_all unpunctuated_item its"
    by simp_all
  from item have ok: "?d \<noteq> []" "list_all is_digit ?d" "?b \<noteq> []" "is_cjk (hd ?b)"
    "\<not> digit_after_nl ?b"
    by (simp_all add: unpunctuated_item_def)
  obtain x b' where b: "?b = x # b'" using ok(3) by (cases ?b) auto
  then have x: "is_cjk x" using ok(4) by simp
  let ?tail = "later_items its"
  have miss: "ms noflags question_pattern (start_state p (Some c) (NL # ?d @ x # b' @ ?tail)) = []"
    unfolding primary_shape line_start_later by (rule number_then_cjk_primary[OF ok(2) x])
  have quiet: "\<not> digit_after_nl ((?d @ ?b) @ take 1 ?tail)"
    using body_then_later_quiet[OF ok(5), of its] digits_no_NL[OF ok(2)]
    by (simp add: dan_append_quiet)
  have "scan noflags question_pattern 0 p (Some c) (later_items (it # its))
          = scan noflags question_pattern 0 (Suc p) (Some NL) ((?d @ ?b) @ ?tail)"
    using miss by (simp add: later_items_Cons b del: ms.simps)
  also have "\<dots> = scan noflags question_pattern 0 (Suc p + length (?d @ ?b)) (Some (last (?d @ ?b))) ?tail"
    using scan_quiet[OF quiet, where p = "Suc p" and c = NL
          and R = "Seq (OneOf [CChar 0x2E, CChar 0x3001, CChar 0xFF0E]) (Seq (star space) Eps)"] ok(3)
    unfolding primary_shape by simp
  also have "\<dots> = []" by (rule Cons.IH[OF rest_ok])
  finally show ?case .
qed

lemma finditer_fallback_doc:
  assumes "unpunctuated_item it" and "list_all unpunctuated_item its"
  shows "finditer noflags fallback_pattern (unpunctuated_doc (it # its))
           = \<lparr>m_start = 0, m_end = length (fst it), m_caps = [(1, fst it)]\<rparr>
               # matches_from (length (fst it) + length (snd it)) its"
proof -
  let ?d = "fst it" and ?b = "snd it" and ?tail = "later_items its"
  from assms(1) have ok: "?d \<noteq> []" "list_all is_digit ?d" "?b \<noteq> []" "is_cjk (hd ?b)"
    "\<not> digit_after_nl ?b"
    by (simp_all add: unpunctuated_item_def)
  obtain x b' where b: "?b = x # b'" using ok(3) by (cases ?b) auto
  then have x: "is_cjk x" using ok(4) by simp
  obtain d0 d' where d: "?d = d0 # d'" using ok(1) by (cases ?d) auto
  let ?s0 = "start_state 0 None (?d @ x # b' @ ?tail)"
  let ?s' = "after_digits (length ?d) ?d ?s0"
  have hit: "ms noflags fallback_pattern ?s0 = [?s']"
    unfolding fallback_shape line_start_first[OF ok(1,2)] by (rule number_then_cjk[OF ok(1,2) x])
  have m: "mk_match 0 ?s' = \<lparr>m_start = 0, m_end = length ?d, m_caps = [(1, ?d)]\<rparr>"
    by (simp add: mk_match_def after_digits_def consume_def start_state_def)
  have pos: "st_pos ?s' - 0 - 1 = length d'"
    by (simp add: after_digits_def consume_def start_state_def d)
  have doc: "unpunctuated_doc (it # its) = d0 # d' @ ?b @ ?tail"
    by (simp add: unpunctuated_doc_def d)
  have s0: "start_state 0 None (d0 # d' @ ?b @ ?tail) = ?s0"
    by (simp add: d b)
  have "scan noflags fallback_pattern 0 0 None (d0 # d' @ ?b @ ?tail)
          = mk_match 0 ?s' # scan noflags fallback_pattern (length d') (Suc 0) (Some d0) (d' @ ?b @ ?tail)"
    using hit pos unfolding scan.simps s0 by (simp del: ms.simps)
  also have "scan noflags fallback_pattern (length d') (Suc 0) (Some d0) (d' @ ?b @ ?tail)
          = scan noflags fallback_pattern 0 (Suc 0 + length d') (Some (last ?d)) (?b @ ?tail)"
    using scan_skip[of d' "length d'" noflags fallback_pattern "Suc 0" "Some d0" "?b @ ?tail"]
    by (simp add: d)
  also have "\<dots> = scan noflags fallback_pattern 0 (Suc 0 + length d' + length ?b) (Some (last ?b)) ?tail"
    using scan_quiet[OF body_then_later_quiet[OF ok(5), of its],
        where p = "Suc 0 + length d'" and c = "last ?d"
          and R = "Seq (Ahead (OneOf [CRange 0x4E00 0x9FA5])) Eps"] ok(3)
    unfolding fallback_shape by simp
  also have "\<dots> = matches_from (Suc 0 + length d' + length ?b) its"
    by (rule scan_later_fallback[OF assms(2)])
  finally have sc: "scan noflags fallback_pattern 0 0 None (d0 # d' @ ?b @ ?tail)
          = mk_match 0 ?s' # matches_from (Suc 0 + length d' + length ?b) its" .
  have "length ?d + length ?b = Suc 0 + length d' + length ?b" by (simp add: d)
  then show ?thesis unfolding finditer_def doc sc m by (simp only:)
qed

lemma finditer_primary_doc:
  assumes "unpunctuated_item it" and "list_all unpunctuated_item its"
  shows "finditer noflags question_pattern (unpunctuated_doc (it # its)) = []"
proof -
  let ?d = "fst it" and ?b = "snd it" and ?tail = "later_items its"
  from assms(1) have ok: "?d \<noteq> []" "list_all is_digit ?d" "?b \<noteq> []" "is_cjk (hd ?b)"
    "\<not> digit_after_nl ?b"
    by (simp_all add: unpunctuated_item_def)
  obtain x b' where b: "?b = x # b'" using ok(3) by (cases ?b) auto
  then have x: "is_cjk x" using ok(4) by simp
  obtain d0 d' where d: "?d = d0 # d'" using ok(1) by (cases ?d) auto
  let ?s0 = "start_state 0 None (?d @ x # b' @ ?tail)"
  have miss: "ms noflags question_pattern ?s0 = []"
    unfolding primary_shape line_start_first[OF ok(1,2)] by (rule number_then_cjk_primary[OF ok(2) x])
  have doc: "unpunctuated_doc (it # its) = d0 # (d' @ ?b) @ ?tail"
    by (simp add: unpunctuated_doc_def d)
  have s0: "start_state 0 None (d0 # (d' @ ?b) @ ?tail) = ?s0"
    by (simp add: d b)
  have quiet: "\<not> digit_after_nl ((d' @ ?b) @ take 1 ?tail)"
    using body_then_later_quiet[OF ok(5), of its] digits_no_NL[OF ok(2)]
    by (simp add: dan_append_quiet d)
  have "scan noflags question_pattern 0 0 None (d0 # (d' @ ?b) @ ?tail)
          = scan noflags question_pattern 0 (Suc 0) (Some d0) ((d' @ ?b) @ ?tail)"
    using miss unfolding scan.simps s0 by (simp del: ms.simps)
  also have "\<dots> = scan noflags question_pattern 0 (Suc 0 + length (d' @ ?b)) (Some (last (d' @ ?b))) ?tail"
    using scan_quiet[OF quiet, where p = "Suc 0" and c = d0
          and R = "Seq (OneOf [CChar 0x2E, CChar 0x3001, CChar 0xFF0E]) (Seq (star space) Eps)"] ok(3)
    unfolding primary_shape by simp
  also have "\<dots> = []" by (rule scan_later_primary[OF assms(2)])
  finally show ?thesis by (simp add: finditer_def doc)
qed

lemma interleave_later:
  "t = pre @ b @ later_items its \<Longrightarrow> length pre = q \<Longrightarrow>
   interleave t q (matches_from (q + length b) its)
     = Some b # concat (map (\<lambda>it. [Some (fst it), Some (snd it)]) its)"
proof (induction its arbitrary: t pre q b)
  case Nil
  then show ?case by (simp add: later_items_Nil)
next
  case (Cons it its)
  let ?pre = "pre @ b @ NL # fst it"
  have t: "t = ?pre @ snd it @ later_items its"
    using Cons.prems(1) by (simp add: later_items_Cons)
  have len: "length ?pre = q + length b + 1 + length (fst it)"
    using Cons.prems(2) by simp
  have ih: "interleave t (q + length b + 1 + length (fst it))
              (matches_from (q + length b + 1 + length (fst it) + length (snd it)) its)
            = Some (snd it) # concat (map (\<lambda>it. [Some (fst it), Some (snd it)]) its)"
    by (rule Cons.IH[OF t len])
  have piece: "take (length b) (drop q t) = b"
    using Cons.prems by simp
  show ?case using ih piece by (simp add: group_def)
qed

lemma split_unpunctuated_doc:
  assumes "list_all unpunctuated_item its"
  shows "split_questions (unpunctuated_doc its) = recovered_parts its"
proof (cases its)
  case Nil
  have "split_questions [] = [Some []]" by code_simp
  then show ?thesis by (simp add: Nil unpunctuated_doc_def recovered_parts_def)
next
  case (Cons it rest)
  then have it: "unpunctuated_item it" and rest: "list_all unpunctuated_item rest"
    using assms by simp_all
  let ?doc = "unpunctuated_doc (it # rest)"
  have primary: "finditer noflags question_pattern ?doc = []"
    by (rule finditer_primary_doc[OF it rest])
  have doc: "?doc = fst it @ snd it @ later_items rest"
    by (simp add: unpunctuated_doc_def)
  have "re_split1 noflags fallback_pattern ?doc
          = Some [] # Some (fst it)
              # interleave ?doc (length (fst it)) (matches_from (length (fst it) + length (snd it)) rest)"
    by (simp add: re_split1_def finditer_fallback_doc[OF it rest] group_def)
  also have "interleave ?doc (length (fst it)) (matches_from (length (fst it) + length (snd it)) rest)
          = Some (snd it) # concat (map (\<lambda>it. [Some (fst it), Some (snd it)]) rest)"
    by (rule interleave_later[OF doc refl])
  finally have "re_split1 noflags fallback_pattern ?doc = recovered_parts (it # rest)"
    by (simp add: recovered_parts_def)
  then show ?thesis
    by (simp add: Cons split_questions_def Let_def length_re_split1 primary)
qed

text \<open>
  C1 (amended).  On the scenario text the punctuated recognizer finds the two items: its
  split has the five parts empty text, 1, first segment, 2, second segment, and
  \<open>parse_single_question\<close> turns the two segments into the questions of the
  scenario (number 1, options A: a and B: b, answer B; number 2, options A: c and B: d,
  answer A).  But five parts are fewer than ten, so the un-punctuated fallback replaces
  the split; it finds no item, and \<open>parse_questions\<close> returns no question.
\<close>

theorem scenario_parse_amended:
  "re_split1 noflags question_pattern scenario_text
     = [Some [], Some (asc ''1''), Some scenario_seg1, Some (asc ''2''), Some scenario_seg2]
   \<and> parse_single_question (Some (asc ''1'')) scenario_seg1 [] = Inr (Some scenario_q1)
   \<and> parse_single_question (Some (asc ''2'')) scenario_seg2 [] = Inr (Some scenario_q2)
   \<and> main_text_of scenario_text = scenario_text
   \<and> split_questions scenario_text = [Some scenario_text]
   \<and> parse_questions scenario_text = Inr []"
  by code_simp

text \<open>
  C1 as stated fails: parsing the scenario text yields no question at all, not the two
  questions of the scenario.
\<close>

theorem scenario_parse_counterexample:
  "parse_questions scenario_text = Inr []
   \<and> parse_questions scenario_text \<noteq> Inr [scenario_q1, scenario_q2]"
  by code_simp

text \<open>
  C2 (amended).  For every text, the punctuated recognizer is used exactly when its
  split has at least 10 parts, that is when it matches 5 or more times; otherwise the
  un-punctuated fallback recognizer is engaged.  And all items are still recovered when
  the document is un-punctuated (every item starts a line with a number directly
  followed by a CJK ideograph, and no other line starts with a digit): the split then is
  the empty text followed by each number and its body.
\<close>

theorem split_questions_threshold:
  "split_questions t =
     (if 5 \<le> length (finditer noflags question_pattern t)
      then re_split1 noflags question_pattern t
      else re_split1 noflags fallback_pattern t)
   \<and> (list_all unpunctuated_item its
        \<longrightarrow> split_questions (unpunctuated_doc its) = recovered_parts its)"
proof -
  have "split_questions t =
     (if 5 \<le> length (finditer noflags question_pattern t)
      then re_split1 noflags question_pattern t
      else re_split1 noflags fallback_pattern t)"
    by (simp add: split_questions_def Let_def length_re_split1)
  moreover have "list_all unpunctuated_item its
        \<longrightarrow> split_questions (unpunctuated_doc its) = recovered_parts its"
    using split_unpunctuated_doc by blast
  ultimately show ?thesis by (rule conjI)
qed

theorem split_questions_threshold_witness:
  "split_questions five_items = re_split1 noflags question_pattern five_items
   \<and> split_questions two_items = re_split1 noflags fallback_pattern two_items
   \<and> list_all unpunctuated_item unpunctuated_three_items
   \<and> unpunctuated_doc unpunctuated_three_items = unpunctuated_three
   \<and> split_questions unpunctuated_three
       = [Some [], Some (asc ''1''), Some [0x6839, 0x636E], Some (asc ''2''), Some [0x4F9D, 0x636E],
          Some (asc ''3''), Some [0x6309, 0x7167]]"
proof -
  have five: "length (finditer noflags question_pattern five_items) = 5" by code_simp
  have two: "length (finditer noflags question_pattern two_items) = 2" by code_simp
  have items: "list_all unpunctuated_item unpunctuated_three_items" by code_simp
  have doc: "unpunctuated_doc unpunctuated_three_items = unpunctuated_three" by code_simp
  have parts: "recovered_parts unpunctuated_three_items
       = [Some [], Some (asc ''1''), Some [0x6839, 0x636E], Some (asc ''2''), Some [0x4F9D, 0x636E],
          Some (asc ''3''), Some [0x6309, 0x7167]]"
    by code_simp
  have "split_questions five_items = re_split1 noflags question_pattern five_items"
    using split_questions_threshold[of five_items] by (simp add: five)
  moreover have "split_questions two_items = re_split1 noflags fallback_pattern two_items"
    using split_questions_threshold[of two_items] by (simp add: two)
  moreover have "split_questions (unpunctuated_doc unpunctuated_three_items)
                   = recovered_parts unpunctuated_three_items"
    using split_questions_threshold[of _ unpunctuated_three_items] items by blast
  ultimately show ?thesis using items doc parts by simp
qed

text \<open>
  C2 as stated fails twice.  With five punctuated items the primary recognizer matches
  fewer than 10 times and still is the one used, the fallback is not engaged.  With two
  punctuated items the fallback is engaged and recovers no item: the split is the whole
  text in one part.
\<close>

theorem split_questions_counterexample:
  "length (finditer noflags question_pattern five_items) = 5
   \<and> split_questions five_items = re_split1 noflags question_pattern five_items
   \<and> split_questions five_items \<noteq> re_split1 noflags fallback_pattern five_items
   \<and> length (finditer noflags question_pattern two_items) = 2
   \<and> split_questions two_items = [Some two_items]"
  by code_simp

section \<open>Properties of the type ranges\<close>

text \<open>
  C4.  When the three headers are found and declare the counts \<open>a\<close>, \<open>b\<close> and
  \<open>c\<close>, the ranges are \<open>[1, a]\<close>, \<open>[a + 1, a + b]\<close> and
  \<open>[a + b + 1, a + b + c]\<close>: together the interval from 1 to \<open>a + b + c\<close>, and
  pairwise disjoint.
\<close>

theorem type_ranges_partition:
  assumes "re_search noflags single_header text = Some m1" and "group_int m1 1 = Inr a"
    and "re_search noflags multi_header text = Some m2" and "group_int m2 1 = Inr b"
    and "re_search noflags case_header text = Some m3" and "group_int m3 1 = Inr c"
  shows "detect_question_type_ranges text
           = Inr [(Single, (1, a)), (Multi, (a + 1, a + b)), (CaseQ, (a + b + 1, a + b + c))]
         \<and> {1..a} \<union> {a + 1..a + b} \<union> {a + b + 1..a + b + c} = {1..a + b + c}
         \<and> {1..a} \<inter> {a + 1..a + b} = {}
         \<and> {1..a} \<inter> {a + b + 1..a + b + c} = {}
         \<and> {a + 1..a + b} \<inter> {a + b + 1..a + b + c} = {}"
proof -
  have "detect_question_type_ranges text
          = Inr [(Single, (1, a)), (Multi, (a + 1, a + b)), (CaseQ, (a + b + 1, a + b + c))]"
    using assms by (auto simp: detect_question_type_ranges_def dict_get_def Let_def)
  moreover have "{1..a} \<union> {a + 1..a + b} \<union> {a + b + 1..a + b + c} = {1..a + b + c}"
    by auto
  ultimately show ?thesis by auto
qed

theorem type_ranges_partition_witness:
  "re_search noflags single_header three_headers = Some three_headers_m1
   \<and> group_int three_headers_m1 1 = Inr 2
   \<and> re_search noflags multi_header three_headers = Some three_headers_m2
   \<and> group_int three_headers_m2 1 = Inr 3
   \<and> re_search noflags case_header three_headers = Some three_headers_m3
   \<and> group_int three_headers_m3 1 = Inr 1
   \<and> detect_question_type_ranges three_headers
       = Inr [(Single, (1, 2)), (Multi, (3, 5)), (CaseQ, (6, 6))]"
proof -
  have s1: "re_search noflags single_header three_headers = Some three_headers_m1" by code_simp
  have g1: "group_int three_headers_m1 1 = Inr 2" by code_simp
  have s2: "re_search noflags multi_header three_headers = Some three_headers_m2" by code_simp
  have g2: "group_int three_headers_m2 1 = Inr 3" by code_simp
  have s3: "re_search noflags case_header three_headers = Some three_headers_m3" by code_simp
  have g3: "group_int three_headers_m3 1 = Inr 1" by code_simp
  show ?thesis using type_ranges_partition[OF s1 g1 s2 g2 s3 g3] s1 g1 s2 g2 s3 g3 by simp
qed

section \<open>Properties of the answer region\<close>

lemma first_search_None:
  "first_search f rs t = None \<longleftrightarrow> (\<forall>r \<in> set rs. re_search f r t = None)"
  by (induction rs) (auto split: option.splits)

text \<open>
  C7 (amended).  When none of the start markers matches, the answer region is the text
  from index \<open>length text * 3 div 5\<close> on: the last two fifths of the document, not
  the last three fifths.
\<close>

theorem answer_region_fallback:
  assumes "\<forall>r \<in> set answer_markers. re_search noflags r text = None"
  shows "locate_answer_section text = drop (length text * 3 div 5) text
         \<and> length (locate_answer_section text) = length text - length text * 3 div 5"
proof -
  have "first_search noflags answer_markers text = None"
    using assms by (simp only: first_search_None)
  then show ?thesis by (simp add: locate_answer_section_def)
qed

theorem answer_region_fallback_witness:
  "first_search noflags answer_markers abcde = None
   \<and> locate_answer_section abcde = drop 3 abcde
   \<and> length (locate_answer_section abcde) = 2"
proof -
  have none: "first_search noflags answer_markers abcde = None" by code_simp
  then have no_marker: "\<forall>r \<in> set answer_markers. re_search noflags r abcde = None"
    by (simp only: first_search_None)
  have len: "length abcde = 5" by code_simp
  show ?thesis using answer_region_fallback[OF no_marker] none by (simp add: len)
qed

text \<open>
  C7 as stated fails: no marker matches the five-character text, its last three fifths
  are its last three characters, and the answer region is its last two.
\<close>

theorem answer_region_counterexample:
  "first_search noflags answer_markers abcde = None
   \<and> drop (length abcde - length abcde * 3 div 5) abcde = asc ''cde''
   \<and> locate_answer_section abcde = asc ''de''"
  by code_simp

section \<open>Properties of the case markers\<close>

text \<open>
  What the selection does with the first marker format.  When at least one occurrence of
  the case label passes the lookahead, the markers are exactly the occurrences that pass
  it, so an occurrence that fails it is no marker.  When no occurrence passes it, all
  occurrences are kept as markers.
\<close>

lemma case_marker_filter:
  "(filter (passes_lookahead s) (finditer noflags case_pattern1 s) \<noteq> []
      \<longrightarrow> set (select_case_matches s)
            = {m \<in> set (finditer noflags case_pattern1 s). passes_lookahead s m})
   \<and> (filter (passes_lookahead s) (finditer noflags case_pattern1 s) = []
      \<longrightarrow> finditer noflags case_pattern1 s \<noteq> []
      \<longrightarrow> select_case_matches s = finditer noflags case_pattern1 s)"
proof -
  let ?all = "finditer noflags case_pattern1 s"
  let ?kept = "filter (passes_lookahead s) ?all"
  have pass: "?kept \<noteq> [] \<Longrightarrow> select_case_matches s = ?kept"
    by (simp add: select_case_matches_def Let_def)
  have none: "?kept = [] \<Longrightarrow> ?all \<noteq> [] \<Longrightarrow> select_case_matches s = ?all"
    by (simp add: select_case_matches_def Let_def)
  have "set ?kept = {m \<in> set ?all. passes_lookahead s m}" by (rule set_filter)
  then show ?thesis using pass none by metis
qed

lemma case_marker_filter_mixed_lone:
  "finditer noflags case_pattern1 mixed_section = [mixed_m1, mixed_m2]
   \<and> passes_lookahead mixed_section mixed_m1
   \<and> \<not> passes_lookahead mixed_section mixed_m2
   \<and> set (select_case_matches mixed_section) = {mixed_m1}
   \<and> finditer noflags case_pattern1 lone_section = [lone_m]
   \<and> \<not> passes_lookahead lone_section lone_m
   \<and> select_case_matches lone_section = [lone_m]"
proof -
  have a: "finditer noflags case_pattern1 mixed_section = [mixed_m1, mixed_m2]" by code_simp
  have b: "passes_lookahead mixed_section mixed_m1" by code_simp
  have c: "\<not> passes_lookahead mixed_section mixed_m2" by code_simp
  have d: "finditer noflags case_pattern1 lone_section = [lone_m]" by code_simp
  have e: "\<not> passes_lookahead lone_section lone_m" by code_simp
  have kept: "filter (passes_lookahead mixed_section) [mixed_m1, mixed_m2] = [mixed_m1]"
    using b c by simp
  have "set (select_case_matches mixed_section)
          = {m \<in> set [mixed_m1, mixed_m2]. passes_lookahead mixed_section m}"
    using case_marker_filter[of mixed_section] unfolding a kept by blast
  also have "\<dots> = set (filter (passes_lookahead mixed_section) [mixed_m1, mixed_m2])"
    by (rule set_filter[symmetric])
  also have "\<dots> = {mixed_m1}" unfolding kept by simp
  finally have mixed: "set (select_case_matches mixed_section) = {mixed_m1}" .
  have none: "filter (passes_lookahead lone_section) [lone_m] = []" using e by simp
  have lone: "select_case_matches lone_section = [lone_m]"
    using case_marker_filter[of lone_section] unfolding d none by blast
  show ?thesis using a b c d e mixed lone by blast
qed

text \<open>
  C6.  An occurrence of the case label that is not followed by a line break or by
  \<open>beijing\<close> must never be a case boundary, and the comment above the filter says
  that only occurrences so followed are kept.  The code breaks this: in the second
  section, which is its own case section, the only occurrence of the case label is
  followed by running text, fails the lookahead, and is the marker that is used.
\<close>

theorem case_marker_failing_input:
  "isolate_case_section lone_section = Some lone_section
   \<and> finditer noflags case_pattern1 lone_section = [lone_m]
   \<and> \<not> passes_lookahead lone_section lone_m
   \<and> select_case_matches lone_section = [lone_m]"
  by code_simp

section \<open>Properties of the background extraction\<close>


end
